theory Spec2Isabelle
  imports Main "HOL-Library.AList"
begin

section \<open>JavaScript values as the handlers see them\<close>

text \<open>
  The request body, the query parameters and the values the handlers build are JSON
  values. An object is the list of its members in property order, one member per key
  (what \<^verbatim>\<open>JSON.parse\<close> produces). A string is the UTF-8 encoding of the JavaScript
  string. A number is kept as the text JavaScript prints for it (\<^verbatim>\<open>7\<close>, \<^verbatim>\<open>100.5\<close>,
  \<^verbatim>\<open>1e+21\<close>; both zeros print \<^verbatim>\<open>0\<close>): the handlers test numbers for truth, print them,
  store them and pass them on, and do nothing else with them.
\<close>

datatype json =
    JUndefined
  | JNull
  | JBool bool
  | JNum string
  | JStr string
  | JArr "json list"
  | JObj "(string \<times> json) list"

text \<open>Truthiness, as \<^verbatim>\<open>if (v)\<close>, \<^verbatim>\<open>!v\<close>, \<^verbatim>\<open>a && b\<close> and \<^verbatim>\<open>a || b\<close> test it.\<close>

fun truthy :: "json \<Rightarrow> bool" where
  "truthy JUndefined = False"
| "truthy JNull = False"
| "truthy (JBool b) = b"
| "truthy (JNum n) = (n \<noteq> ''0'')"
| "truthy (JStr s) = (s \<noteq> [])"
| "truthy (JArr xs) = True"
| "truthy (JObj kvs) = True"

definition or_else :: "json \<Rightarrow> json \<Rightarrow> json" where
  "or_else a b = (if truthy a then a else b)"

fun nullish :: "json \<Rightarrow> bool" where
  "nullish JUndefined = True"
| "nullish JNull = True"
| "nullish v = False"

text \<open>
  \<open>member v k\<close> is the read \<^verbatim>\<open>v?.k\<close> for the member names the handlers use
  (\<^verbatim>\<open>data\<close>, \<^verbatim>\<open>attributes\<close>, \<^verbatim>\<open>payment\<close>, \<^verbatim>\<open>client_id\<close>, ...; none of them is an
  index or a built-in property of a string, a number or an array): an object gives the
  member or \<^verbatim>\<open>undefined\<close>, every other value gives \<^verbatim>\<open>undefined\<close>. The plain
  read \<^verbatim>\<open>v.k\<close> is \<open>read_prop v k\<close>: it throws a TypeError on \<^verbatim>\<open>null\<close> and
  \<^verbatim>\<open>undefined\<close>.
\<close>

fun member :: "json \<Rightarrow> string \<Rightarrow> json" where
  "member (JObj kvs) k = (case map_of kvs k of None \<Rightarrow> JUndefined | Some v \<Rightarrow> v)"
| "member v k = JUndefined"

text \<open>
  What the handlers can catch: the TypeError of a member read on \<^verbatim>\<open>null\<close> or
  \<^verbatim>\<open>undefined\<close>, the TypeError of printing a value that has no primitive form, and an
  error thrown by the storage or by the external service, with its message.
\<close>

datatype exn =
    TypeError json string
  | NotPrimitive
  | Failure string

definition read_prop :: "json \<Rightarrow> string \<Rightarrow> exn + json" where
  "read_prop v k = (if nullish v then Inl (TypeError v k) else Inr (member v k))"

text \<open>
  The assignment \<^verbatim>\<open>v.k = x\<close>: on an object the member is replaced in place or appended;
  on a primitive it is ignored (the modules are not in strict mode). The handler assigns
  only to a value of which it has just read a truthy named member, and so to an object.
\<close>

fun set_member :: "json \<Rightarrow> string \<Rightarrow> json \<Rightarrow> json" where
  "set_member (JObj kvs) k x = JObj (AList.update k x kvs)"
| "set_member v k x = v"

text \<open>
  The length of a JavaScript string, in UTF-16 code units, from its UTF-8 encoding: one
  unit for every code point of one, two or three bytes, two units for a code point of
  four bytes. A continuation byte counts nothing.
\<close>

definition utf16_units :: "char \<Rightarrow> nat" where
  "utf16_units c =
     (let b = (of_char c :: nat) in
      if b < 128 then 1 else if b < 192 then 0 else if b < 240 then 1 else 2)"

definition utf16_length :: "string \<Rightarrow> nat" where
  "utf16_length s = sum_list (map utf16_units s)"

text \<open>
  The length of \<^verbatim>\<open>Object.keys(v)\<close>: the members of an object, the indices of an array
  or of a string, nothing for a number or a boolean. (\<^verbatim>\<open>Object.keys\<close> throws on
  \<^verbatim>\<open>null\<close> and \<^verbatim>\<open>undefined\<close>; every call of the handler is guarded by a truthiness
  test, written out in \<open>is_ping\<close> below.)
\<close>

fun keys_count :: "json \<Rightarrow> nat" where
  "keys_count (JObj kvs) = length kvs"
| "keys_count (JArr xs) = length xs"
| "keys_count (JStr s) = utf16_length s"
| "keys_count v = 0"

subsection \<open>Printing\<close>

text \<open>
  The decimal numeral of an integer. It is used for the integers the code computes and
  prints or returns: time values, their differences, array lengths and parsed integers of
  magnitude at most \<open>2^53\<close>. JavaScript prints each of these as its decimal numeral.
\<close>

definition digit_char :: "nat \<Rightarrow> char" where
  "digit_char d = ''0123456789'' ! d"

fun nat_to_string :: "nat \<Rightarrow> string" where
  "nat_to_string n =
     (if n < 10 then [digit_char n] else nat_to_string (n div 10) @ [digit_char (n mod 10)])"

definition decimal :: "int \<Rightarrow> string" where
  "decimal i =
     (if i < 0 then CHR ''-'' # nat_to_string (nat (- i)) else nat_to_string (nat i))"

fun join_comma :: "string list \<Rightarrow> string" where
  "join_comma [] = []"
| "join_comma [s] = s"
| "join_comma (s # t # ss) = s @ '','' @ join_comma (t # ss)"

text \<open>
  \<^verbatim>\<open>String(v)\<close>, which a template literal and \<^verbatim>\<open>parseInt\<close> apply to their argument.
  An object prints through its \<^verbatim>\<open>toString\<close>: the inherited one gives
  \<^verbatim>\<open>[object Object]\<close>; an own \<^verbatim>\<open>toString\<close> member, which in a JSON value is never a
  function, leaves the object without a primitive form, and printing throws a TypeError.
  An array joins the prints of its elements with commas, \<^verbatim>\<open>null\<close> and \<^verbatim>\<open>undefined\<close>
  elements printing as nothing; it throws when an element does.
\<close>

fun printable :: "json \<Rightarrow> bool" where
  "printable (JObj kvs) = (map_of kvs ''toString'' = None)"
| "printable (JArr xs) = list_all printable xs"
| "printable v = True"

fun print_text :: "json \<Rightarrow> string" where
  "print_text JUndefined = ''undefined''"
| "print_text JNull = ''null''"
| "print_text (JBool b) = (if b then ''true'' else ''false'')"
| "print_text (JNum n) = n"
| "print_text (JStr s) = s"
| "print_text (JArr xs) =
     join_comma (map (\<lambda>x. if nullish x then [] else print_text x) xs)"
| "print_text (JObj kvs) = ''[object Object]''"

definition js_to_string :: "json \<Rightarrow> exn + string" where
  "js_to_string v = (if printable v then Inr (print_text v) else Inl NotPrimitive)"

subsection \<open>\<^verbatim>\<open>parseInt\<close>\<close>

text \<open>
  The white space \<^verbatim>\<open>parseInt\<close> skips at the start of its input: the code points TAB, LF,
  VT, FF, CR, SP, U+00A0, U+1680, U+2000 to U+200A, U+2028, U+2029, U+202F, U+205F, U+3000
  and U+FEFF, here in UTF-8. \<open>ws_width s\<close> is the number of bytes of the white space
  code point \<open>s\<close> starts with, and 0 when it starts with none.
\<close>

definition ascii_spaces :: "string list" where
  "ascii_spaces =
     [CHR 0x09] # [CHR 0x0A] # [CHR 0x0B] # [CHR 0x0C] # [CHR 0x0D] # [CHR 0x20] # []"

definition wide_spaces :: "string list" where
  "wide_spaces =
     [CHR 0xE1, CHR 0x9A, CHR 0x80] #
     [CHR 0xE2, CHR 0x80, CHR 0x80] # [CHR 0xE2, CHR 0x80, CHR 0x81] #
     [CHR 0xE2, CHR 0x80, CHR 0x82] # [CHR 0xE2, CHR 0x80, CHR 0x83] #
     [CHR 0xE2, CHR 0x80, CHR 0x84] # [CHR 0xE2, CHR 0x80, CHR 0x85] #
     [CHR 0xE2, CHR 0x80, CHR 0x86] # [CHR 0xE2, CHR 0x80, CHR 0x87] #
     [CHR 0xE2, CHR 0x80, CHR 0x88] # [CHR 0xE2, CHR 0x80, CHR 0x89] #
     [CHR 0xE2, CHR 0x80, CHR 0x8A] #
     [CHR 0xE2, CHR 0x80, CHR 0xA8] # [CHR 0xE2, CHR 0x80, CHR 0xA9] #
     [CHR 0xE2, CHR 0x80, CHR 0xAF] # [CHR 0xE2, CHR 0x81, CHR 0x9F] #
     [CHR 0xE3, CHR 0x80, CHR 0x80] # [CHR 0xEF, CHR 0xBB, CHR 0xBF] # []"

definition ws_width :: "string \<Rightarrow> nat" where
  "ws_width s =
     (if take 1 s \<in> set ascii_spaces then 1
      else if take 2 s = [CHR 0xC2, CHR 0xA0] then 2
      else if take 3 s \<in> set wide_spaces then 3
      else 0)"

function skip_space :: "string \<Rightarrow> string" where
  "skip_space s = (if ws_width s = 0 then s else skip_space (drop (ws_width s) s))"
  by pat_completeness auto
termination
proof (relation "measure length")
  show "wf (measure length)" by simp
next
  fix s :: string
  assume "ws_width s \<noteq> 0"
  then have "s \<noteq> []"
    by (auto simp: ws_width_def ascii_spaces_def wide_spaces_def)
  with \<open>ws_width s \<noteq> 0\<close> show "(drop (ws_width s) s, s) \<in> measure length"
    by simp
qed

text \<open>
  The value of a digit in any radix up to 36, and the integer a prefix of digits denotes
  in radix \<open>r\<close>; \<open>None\<close> when there is no digit.
\<close>

definition digit_val :: "char \<Rightarrow> nat" where
  "digit_val c =
     (let n = (of_char c :: nat) in
      if 48 \<le> n \<and> n \<le> 57 then n - 48
      else if 97 \<le> n \<and> n \<le> 122 then n - 87
      else if 65 \<le> n \<and> n \<le> 90 then n - 55
      else 36)"

fun parse_digits :: "nat \<Rightarrow> string \<Rightarrow> nat option \<Rightarrow> nat option" where
  "parse_digits r [] acc = acc"
| "parse_digits r (c # cs) acc =
     (if digit_val c < r
      then parse_digits r cs (Some ((case acc of None \<Rightarrow> 0 | Some a \<Rightarrow> a) * r + digit_val c))
      else acc)"

definition parse_radix :: "string \<Rightarrow> nat option" where
  "parse_radix s =
     (case s of
        c # x # rest \<Rightarrow>
          (if c = CHR ''0'' \<and> (x = CHR ''x'' \<or> x = CHR ''X'')
           then parse_digits 16 rest None else parse_digits 10 s None)
      | _ \<Rightarrow> parse_digits 10 s None)"

text \<open>
  The result of \<^verbatim>\<open>parseInt\<close>: \<^verbatim>\<open>NaN\<close>; an integer of magnitude at most \<open>2^53\<close>, which the
  resulting number is exactly; or an integer beyond, for which the code goes on with the
  nearest double (or an infinity) and the model says no more than that.
\<close>

datatype parsed = NaN | Num int | Beyond

definition to_number :: "int \<Rightarrow> parsed" where
  "to_number i =
     (if - 9007199254740992 \<le> i \<and> i \<le> 9007199254740992 then Num i else Beyond)"

text \<open>
  \<^verbatim>\<open>parseInt(s)\<close> with no radix, on a string: leading white space is skipped, a sign is
  read, a \<^verbatim>\<open>0x\<close> prefix selects radix 16, and the longest prefix of digits is the value.
\<close>

definition parse_int :: "string \<Rightarrow> parsed" where
  "parse_int s =
     (case skip_space s of
        [] \<Rightarrow> NaN
      | c # cs \<Rightarrow>
          (if c = CHR ''-''
           then (case parse_radix cs of None \<Rightarrow> NaN | Some n \<Rightarrow> to_number (- int n))
           else if c = CHR ''+''
           then (case parse_radix cs of None \<Rightarrow> NaN | Some n \<Rightarrow> to_number (int n))
           else (case parse_radix (c # cs) of None \<Rightarrow> NaN | Some n \<Rightarrow> to_number (int n))))"

text \<open>\<^verbatim>\<open>parseInt(v)\<close> on any value: the value is printed first, which can throw.\<close>

definition parseInt :: "json \<Rightarrow> exn + parsed" where
  "parseInt v = (case js_to_string v of Inl err \<Rightarrow> Inl err | Inr s \<Rightarrow> Inr (parse_int s))"

text \<open>\<^verbatim>\<open>n || d\<close> on a parsed number: \<^verbatim>\<open>NaN\<close> and \<open>0\<close> are falsy.\<close>

fun or_default :: "parsed \<Rightarrow> int \<Rightarrow> parsed" where
  "or_default NaN d = Num d"
| "or_default (Num n) d = (if n = 0 then Num d else Num n)"
| "or_default Beyond d = Beyond"

subsection \<open>Time values\<close>

text \<open>
  \<^verbatim>\<open>Date.now()\<close> returns an integer number of milliseconds. The model keeps the time
  values of magnitude at most \<open>2^52\<close> (some 140000 years around 1970): these and their
  differences are integers JavaScript computes and prints exactly.
\<close>

typedef time_value = "{t :: int. - 4503599627370496 \<le> t \<and> t \<le> 4503599627370496}"
  by (rule exI [of _ 0]) simp

setup_lifting type_definition_time_value

lift_definition millis :: "int \<Rightarrow> time_value"
  is "\<lambda>t. if - 4503599627370496 \<le> t \<and> t \<le> 4503599627370496 then t else 0"
  by simp

lift_definition millis_of :: "time_value \<Rightarrow> int" is "\<lambda>t. t" .

section \<open>The persistence gateway and the external services\<close>

text \<open>
  A payment row: the seven columns the webhook handler fills in, and the three the
  gateway maintains.
\<close>

record payment_record =
  transaction_id :: json
  client_id :: json
  amount :: json
  currency_code :: json
  payment_type :: json
  payment_method :: json
  created_at :: json

record payment = payment_record +
  status :: string
  response_payload :: json
  error_message :: json

record log_entry =
  log_body :: json
  log_headers :: json
  log_ip :: json
  log_validated :: json

text \<open>
  What a run does to the outside, in the order it does it: a row inserted, the external
  post invoked (with the payment data passed), a status written, the background client
  sync started (with the client number passed).
\<close>

datatype event =
    Inserted json
  | PostInvoked json
  | StatusUpdated json string
  | SyncStarted parsed

record world =
  payments :: "payment list"
  webhook_logs :: "log_entry list"
  events :: "event list"

text \<open>
  The module \<^verbatim>\<open>utils/database\<close> (\<^verbatim>\<open>dbHelpers\<close>) is not among the sources; its
  operations are modelled from the spec's persistence gateway. Every operation can fail
  when the storage is unavailable (the spec's PersistenceError): the first argument of
  each is that failure, when it happens at this call, with the message of the error
  thrown.
\<close>

text \<open>
  Modelled from the spec: \<^verbatim>\<open>dbHelpers.logWebhook\<close>, missing from the sources. It appends
  a webhook log entry (raw body, headers, source IP, validation outcome) to an
  append-only log.
\<close>

definition logWebhook :: "string option \<Rightarrow> log_entry \<Rightarrow> world \<Rightarrow> exn + world" where
  "logWebhook fault e w =
     (case fault of
        Some m \<Rightarrow> Inl (Failure m)
      | None \<Rightarrow> Inr (w\<lparr>webhook_logs := webhook_logs w @ [e]\<rparr>))"

text \<open>
  Modelled from the spec: \<^verbatim>\<open>dbHelpers.getPaymentByTransactionId\<close>, missing from the
  sources. It gets the payment stored under a transaction id, if there is one. Ids are
  compared as the JSON values the handler passes.
\<close>

definition getPaymentByTransactionId ::
    "string option \<Rightarrow> json \<Rightarrow> world \<Rightarrow> exn + payment option" where
  "getPaymentByTransactionId fault tid w =
     (case fault of
        Some m \<Rightarrow> Inl (Failure m)
      | None \<Rightarrow> Inr (find (\<lambda>p. transaction_id p = tid) (payments w)))"

text \<open>
  Modelled from the spec: the row \<^verbatim>\<open>dbHelpers.insertPayment\<close> stores. A new payment
  record has status pending, and neither a response payload nor an error message.
\<close>

definition pending_row :: "payment_record \<Rightarrow> payment" where
  "pending_row r =
     \<lparr>transaction_id = transaction_id r, client_id = client_id r, amount = amount r,
      currency_code = currency_code r, payment_type = payment_type r,
      payment_method = payment_method r, created_at = created_at r,
      status = ''pending'', response_payload = JNull, error_message = JNull\<rparr>"

text \<open>
  Modelled from the spec: \<^verbatim>\<open>dbHelpers.insertPayment\<close>, missing from the sources. It
  inserts a payment and fails on a duplicate transaction id.
\<close>

definition insertPayment :: "string option \<Rightarrow> payment_record \<Rightarrow> world \<Rightarrow> exn + world" where
  "insertPayment fault r w =
     (case fault of
        Some m \<Rightarrow> Inl (Failure m)
      | None \<Rightarrow>
          (if transaction_id r \<in> set (map transaction_id (payments w))
           then Inl (Failure ''UNIQUE constraint failed: payments.transaction_id'')
           else Inr (w\<lparr>payments := payments w @ [pending_row r],
                       events := events w @ [Inserted (transaction_id r)]\<rparr>)))"

text \<open>
  Modelled from the spec: \<^verbatim>\<open>dbHelpers.updatePaymentStatus\<close>, missing from the sources. It
  writes the new status and the response or error payload into the row of a transaction
  id.
\<close>

definition set_status :: "json \<Rightarrow> string \<Rightarrow> json \<Rightarrow> json \<Rightarrow> payment \<Rightarrow> payment" where
  "set_status tid st resp err p =
     (if transaction_id p = tid
      then p\<lparr>status := st, response_payload := resp, error_message := err\<rparr>
      else p)"

definition updatePaymentStatus ::
    "string option \<Rightarrow> json \<Rightarrow> string \<Rightarrow> json \<Rightarrow> json \<Rightarrow> world \<Rightarrow> exn + world" where
  "updatePaymentStatus fault tid st resp err w =
     (case fault of
        Some m \<Rightarrow> Inl (Failure m)
      | None \<Rightarrow>
          Inr (w\<lparr>payments := map (set_status tid st resp err) (payments w),
                 events := events w @ [StatusUpdated tid st]\<rparr>))"

text \<open>
  Modelled from the spec: \<^verbatim>\<open>dbHelpers.getAllPayments\<close>, missing from the sources. It lists
  the payments with offset and limit: at most \<open>lim\<close> rows starting at \<open>off\<close>.
\<close>

definition getAllPayments ::
    "string option \<Rightarrow> int \<Rightarrow> int \<Rightarrow> world \<Rightarrow> exn + payment list" where
  "getAllPayments fault lim off w =
     (case fault of
        Some m \<Rightarrow> Inl (Failure m)
      | None \<Rightarrow> Inr (take (nat lim) (drop (nat off) (payments w))))"

text \<open>
  What a request meets outside the handler: the clock (\<^verbatim>\<open>Date.now()\<close> at entry, at the
  synthesis of a transaction id and at the end; \<^verbatim>\<open>new Date().toISOString()\<close>), the
  storage failures at each gateway call of the handler, \<^verbatim>\<open>JSON.stringify\<close>, and
  \<^verbatim>\<open>postPaymentToUISP\<close> (\<^verbatim>\<open>services/uispService\<close>, not among the sources): it
  returns the remote response or throws an error carrying a message. The other call into
  that module, \<^verbatim>\<open>syncSingleClient\<close>, starts the background sync of a client; by the spec
  it is fire-and-forget and its failures are never surfaced, so it has no outcome here.
\<close>

record env =
  clock_start :: time_value
  clock_synth :: time_value
  clock_end :: time_value
  iso_now :: string
  log_fault :: "string option"
  lookup_fault :: "string option"
  insert_fault :: "string option"
  update_fault :: "string option"
  update_fault_catch :: "string option"
  stringify :: "json \<Rightarrow> string"
  postPaymentToUISP :: "json \<Rightarrow> string + json"

definition JSON_stringify :: "env \<Rightarrow> json \<Rightarrow> json" where
  "JSON_stringify e v = (case v of JUndefined \<Rightarrow> JUndefined | _ \<Rightarrow> JStr (stringify e v))"

text \<open>The \<^verbatim>\<open>message\<close> of a caught error.\<close>

fun exn_message :: "exn \<Rightarrow> string" where
  "exn_message (Failure m) = m"
| "exn_message NotPrimitive = ''Cannot convert object to primitive value''"
| "exn_message (TypeError v k) =
     ''Cannot read properties of '' @ print_text v @ '' (reading '' @ [CHR 0x27] @ k
       @ [CHR 0x27] @ '')''"

section \<open>The webhook handler: \<^verbatim>\<open>POST /webhook/payment\<close>\<close>

type_synonym response = "nat \<times> json"

record request =
  body :: json
  headers :: json
  ip :: json
  remote_address :: json
  webhook_validated :: json

text \<open>
  Payload extraction: \<^verbatim>\<open>req.body.data && req.body.data.attributes\<close>, then
  \<^verbatim>\<open>req.body.payment\<close>, then the body itself. The first read throws when the body is
  \<^verbatim>\<open>null\<close> or \<^verbatim>\<open>undefined\<close>.
\<close>

definition extract_payment_data :: "json \<Rightarrow> exn + json" where
  "extract_payment_data b =
     (case read_prop b ''data'' of
        Inl e \<Rightarrow> Inl e
      | Inr d \<Rightarrow>
          (if truthy d \<and> truthy (member d ''attributes'') then Inr (member d ''attributes'')
           else if truthy (member b ''payment'') then Inr (member b ''payment'')
           else Inr b))"

definition is_ping :: "json \<Rightarrow> bool" where
  "is_ping pd = (\<not> truthy pd \<or> keys_count pd = 0)"

definition alias_client_id :: "json \<Rightarrow> json" where
  "alias_client_id pd =
     (if truthy (member pd ''customer_id'') \<and> \<not> truthy (member pd ''client_id'')
      then set_member pd ''client_id'' (member pd ''customer_id'')
      else pd)"

definition requiredFields :: "string list" where
  "requiredFields = [''client_id'', ''amount'']"

definition missingFields :: "json \<Rightarrow> string list" where
  "missingFields pd = filter (\<lambda>field. \<not> truthy (member pd field)) requiredFields"

text \<open>
  The template literal \<^verbatim>\<open>SPLYNX-${Date.now()}-${paymentData.client_id}\<close>, for the time
  and the print of the client id. Printing the client id can throw.
\<close>

definition synthesized_id :: "time_value \<Rightarrow> string \<Rightarrow> string" where
  "synthesized_id now cid = ''SPLYNX-'' @ decimal (millis_of now) @ ''-'' @ cid"

definition ensure_transaction_id :: "time_value \<Rightarrow> json \<Rightarrow> exn + json" where
  "ensure_transaction_id now pd =
     (if \<not> truthy (member pd ''transaction_id'')
      then (case js_to_string (member pd ''client_id'') of
              Inl err \<Rightarrow> Inl err
            | Inr cid \<Rightarrow> Inr (set_member pd ''transaction_id'' (JStr (synthesized_id now cid))))
      else Inr pd)"

definition ping_response :: response where
  "ping_response =
     (200, JObj [(''success'', JBool True),
                 (''message'', JStr ''Webhook endpoint is active and ready to receive payments'')])"

definition probe_response :: response where
  "probe_response =
     (200, JObj [(''success'', JBool True),
                 (''message'', JStr
                    ''Webhook endpoint is active. Required fields for actual payments: client_id, amount'')])"

definition missing_response :: "string list \<Rightarrow> response" where
  "missing_response missing =
     (400, JObj [(''error'', JStr ''Missing required fields''),
                 (''missingFields'', JArr (map JStr missing))])"

text \<open>
  The handler up to the synthesis of the transaction id. The result is a thrown error, an
  early response, or the payment data to process.
\<close>

definition validate_payload :: "time_value \<Rightarrow> json \<Rightarrow> exn + (response + json)" where
  "validate_payload now b =
     (case extract_payment_data b of
        Inl e \<Rightarrow> Inl e
      | Inr pd0 \<Rightarrow>
          (if is_ping pd0 then Inr (Inl ping_response)
           else
             (let pd = alias_client_id pd0; missing = missingFields pd in
              if length missing > 0
              then (if keys_count pd < 3 then Inr (Inl probe_response)
                    else Inr (Inl (missing_response missing)))
              else (case ensure_transaction_id now pd of
                      Inl err \<Rightarrow> Inl err
                    | Inr pd' \<Rightarrow> Inr (Inr pd')))))"

definition paymentRecord :: "env \<Rightarrow> json \<Rightarrow> payment_record" where
  "paymentRecord e pd =
     \<lparr>transaction_id = member pd ''transaction_id'',
      client_id = member pd ''client_id'',
      amount = member pd ''amount'',
      currency_code = or_else (member pd ''currency_code'') (JStr ''KES''),
      payment_type = member pd ''payment_type'',
      payment_method = or_else (member pd ''payment_method'') (member pd ''payment_type''),
      created_at = or_else (member pd ''created_at'') (JStr (iso_now e))\<rparr>"

definition duplicate_response :: "json \<Rightarrow> payment \<Rightarrow> response" where
  "duplicate_response tid existing =
     (200, JObj [(''message'', JStr ''Payment already processed''),
                 (''transactionId'', tid),
                 (''status'', JStr (status existing))])"

definition success_response :: "env \<Rightarrow> json \<Rightarrow> json \<Rightarrow> response" where
  "success_response e tid uispResponse =
     (200, JObj [(''message'', JStr ''Payment successfully posted to UISP''),
                 (''transactionId'', tid),
                 (''uispPaymentId'', member uispResponse ''id''),
                 (''duration'',
                    JStr (decimal (millis_of (clock_end e) - millis_of (clock_start e)) @ ''ms''))])"

definition uisp_failure_response :: "json \<Rightarrow> exn \<Rightarrow> response" where
  "uisp_failure_response tid uispError =
     (500, JObj [(''error'', JStr ''Failed to post payment to UISP''),
                 (''transactionId'', tid),
                 (''message'', JStr (exn_message uispError))])"

definition internal_error_response :: "exn \<Rightarrow> response" where
  "internal_error_response error =
     (500, JObj [(''error'', JStr ''Internal server error''),
                 (''message'', JStr (exn_message error))])"

text \<open>
  The inner \<^verbatim>\<open>try\<close>: the external post, the status write and the start of the
  background sync with \<^verbatim>\<open>parseInt(paymentData.client_id)\<close>. Whatever is thrown inside,
  by the post, by the status write or by \<^verbatim>\<open>parseInt\<close> printing the client id, goes to
  the inner \<^verbatim>\<open>catch\<close>.
\<close>

definition try_post :: "env \<Rightarrow> json \<Rightarrow> world \<Rightarrow> (exn \<times> world) + (response \<times> world)" where
  "try_post e pd w =
     (let tid = member pd ''transaction_id'';
          w1 = w\<lparr>events := events w @ [PostInvoked pd]\<rparr> in
      case postPaymentToUISP e pd of
        Inl m \<Rightarrow> Inl (Failure m, w1)
      | Inr uispResponse \<Rightarrow>
          (case updatePaymentStatus (update_fault e) tid ''success''
                  (JSON_stringify e uispResponse) JNull w1 of
             Inl err \<Rightarrow> Inl (err, w1)
           | Inr w2 \<Rightarrow>
               (case parseInt (member pd ''client_id'') of
                  Inl err \<Rightarrow> Inl (err, w2)
                | Inr client \<Rightarrow>
                    Inr (success_response e tid uispResponse,
                         w2\<lparr>events := events w2 @ [SyncStarted client]\<rparr>))))"

definition post_and_finalize ::
    "env \<Rightarrow> json \<Rightarrow> world \<Rightarrow> (exn \<times> world) + (response \<times> world)" where
  "post_and_finalize e pd w =
     (case try_post e pd w of
        Inr r \<Rightarrow> Inr r
      | Inl (uispError, w1) \<Rightarrow>
          (case updatePaymentStatus (update_fault_catch e) (member pd ''transaction_id'')
                  ''failed'' JNull (JStr (exn_message uispError)) w1 of
             Inl err \<Rightarrow> Inl (err, w1)
           | Inr w2 \<Rightarrow> Inr (uisp_failure_response (member pd ''transaction_id'') uispError, w2)))"

text \<open>The idempotency check, the pending insert, and the post.\<close>

definition process_payment ::
    "env \<Rightarrow> json \<Rightarrow> world \<Rightarrow> (exn \<times> world) + (response \<times> world)" where
  "process_payment e pd w =
     (case getPaymentByTransactionId (lookup_fault e) (member pd ''transaction_id'') w of
        Inl err \<Rightarrow> Inl (err, w)
      | Inr (Some existingPayment) \<Rightarrow>
          Inr (duplicate_response (member pd ''transaction_id'') existingPayment, w)
      | Inr None \<Rightarrow>
          (case insertPayment (insert_fault e) (paymentRecord e pd) w of
             Inl err \<Rightarrow> Inl (err, w)
           | Inr w1 \<Rightarrow> post_and_finalize e pd w1))"

text \<open>
  The log entry written at entry: the body, the headers, \<^verbatim>\<open>req.ip ||
  req.connection.remoteAddress\<close> and the validator's outcome.
\<close>

definition webhook_log_entry :: "request \<Rightarrow> log_entry" where
  "webhook_log_entry req =
     \<lparr>log_body = body req, log_headers = headers req,
      log_ip = or_else (ip req) (remote_address req),
      log_validated = webhook_validated req\<rparr>"

definition payment_try ::
    "env \<Rightarrow> request \<Rightarrow> world \<Rightarrow> (exn \<times> world) + (response \<times> world)" where
  "payment_try e req w =
     (case logWebhook (log_fault e) (webhook_log_entry req) w of
        Inl err \<Rightarrow> Inl (err, w)
      | Inr w1 \<Rightarrow>
          (case validate_payload (clock_synth e) (body req) of
             Inl err \<Rightarrow> Inl (err, w1)
           | Inr (Inl early) \<Rightarrow> Inr (early, w1)
           | Inr (Inr pd) \<Rightarrow> process_payment e pd w1))"

text \<open>
  The whole handler, with the outer \<^verbatim>\<open>catch\<close>. The middleware
  \<^verbatim>\<open>validateWebhookSignature\<close> that runs before it is not among the sources; a request
  is one it has let through, with its outcome in \<^verbatim>\<open>req.webhookValidated\<close>.
\<close>

definition webhook_payment :: "env \<Rightarrow> request \<Rightarrow> world \<Rightarrow> response \<times> world" where
  "webhook_payment e req w =
     (case payment_try e req w of
        Inr r \<Rightarrow> r
      | Inl (error, w1) \<Rightarrow> (internal_error_response error, w1))"

text \<open>Deliveries one after the other, each with its own environment.\<close>

definition deliver :: "world \<Rightarrow> env \<times> request \<Rightarrow> world" where
  "deliver w d = snd (webhook_payment (fst d) (snd d) w)"

definition deliver_all :: "world \<Rightarrow> (env \<times> request) list \<Rightarrow> world" where
  "deliver_all w ds = foldl deliver w ds"


section \<open>The read and sync routes: \<^verbatim>\<open>routes/api.js\<close>\<close>

text \<open>
  An integer the code has computed, as a JSON number; the answer of every \<^verbatim>\<open>catch\<close> of
  this router; and the plain answer \<^verbatim>\<open>{success: true, data}\<close>.
\<close>

definition number :: "int \<Rightarrow> json" where
  "number n = JNum (decimal n)"

definition api_failure :: "string \<Rightarrow> exn \<Rightarrow> response" where
  "api_failure what error =
     (500, JObj [(''success'', JBool False), (''error'', JStr what),
                 (''message'', JStr (exn_message error))])"


definition pagination :: "int \<Rightarrow> int \<Rightarrow> nat \<Rightarrow> json" where
  "pagination limit offset count =
     JObj [(''limit'', number limit), (''offset'', number offset), (''count'', number (int count))]"

definition payment_json :: "payment \<Rightarrow> json" where
  "payment_json p =
     JObj [(''transaction_id'', transaction_id p), (''client_id'', client_id p),
           (''amount'', amount p), (''currency_code'', currency_code p),
           (''payment_type'', payment_type p), (''payment_method'', payment_method p),
           (''created_at'', created_at p), (''status'', JStr (status p)),
           (''response_payload'', response_payload p), (''error_message'', error_message p)]"

text \<open>The answer of \<^verbatim>\<open>GET /api/payments\<close> with the rows the gateway has listed.\<close>

definition payments_page :: "int \<Rightarrow> int \<Rightarrow> payment list \<Rightarrow> response" where
  "payments_page limit offset rows =
     (200, JObj [(''success'', JBool True),
                 (''data'', JArr (map payment_json rows)),
                 (''pagination'', pagination limit offset (length rows))])"

text \<open>
  \<^verbatim>\<open>GET /api/payments\<close>. Both parameters are parsed inside the \<^verbatim>\<open>try\<close>, so a parameter
  that cannot be printed is answered by the \<^verbatim>\<open>catch\<close>. The result is \<open>None\<close> when the
  limit or the offset is an integer beyond \<open>2^53\<close>: the code goes on with the nearest
  double, the model stops there.
\<close>

definition get_payments :: "string option \<Rightarrow> json \<Rightarrow> world \<Rightarrow> response option" where
  "get_payments fault query w =
     (case parseInt (member query ''limit'') of
        Inl error \<Rightarrow> Some (api_failure ''Failed to fetch payments'' error)
      | Inr l \<Rightarrow>
          (case parseInt (member query ''offset'') of
             Inl error \<Rightarrow> Some (api_failure ''Failed to fetch payments'' error)
           | Inr off \<Rightarrow>
               (case (or_default l 50, or_default off 0) of
                  (Num limit, Num offset) \<Rightarrow>
                    (case getAllPayments fault limit offset w of
                       Inr rows \<Rightarrow> Some (payments_page limit offset rows)
                     | Inl error \<Rightarrow> Some (api_failure ''Failed to fetch payments'' error))
                | _ \<Rightarrow> None)))"


text \<open>
  The remaining routes await one helper of \<^verbatim>\<open>dbHelpers\<close> or of the external service,
  none of them among the sources, and answer with what it returns or with what it throws.
  Each takes the outcome of its helper as a parameter.
\<close>













section \<open>Notions the properties are stated with\<close>

text \<open>The three payload shapes of the webhook body, for the attributes \<open>a\<close>.\<close>

definition json_api_shape :: "json \<Rightarrow> json" where
  "json_api_shape a = JObj [(''data'', JObj [(''attributes'', a)])]"

definition envelope_shape :: "json \<Rightarrow> json" where
  "envelope_shape a = JObj [(''payment'', a)]"

text \<open>Two client ids of one printable kind: both strings, or both numbers.\<close>

fun same_kind :: "json \<Rightarrow> json \<Rightarrow> bool" where
  "same_kind (JStr a) (JStr b) = True"
| "same_kind (JNum a) (JNum b) = True"
| "same_kind a b = False"

text \<open>How often the external post was invoked for a transaction id.\<close>

fun is_post_for :: "json \<Rightarrow> event \<Rightarrow> bool" where
  "is_post_for tid (PostInvoked pd) = (member pd ''transaction_id'' = tid)"
| "is_post_for tid ev = False"

definition post_count :: "json \<Rightarrow> world \<Rightarrow> nat" where
  "post_count tid w = length (filter (is_post_for tid) (events w))"

text \<open>The transaction ids the external post was invoked for, in order.\<close>

fun posted_id :: "event \<Rightarrow> json list" where
  "posted_id (PostInvoked pd) = [member pd ''transaction_id'']"
| "posted_id ev = []"

definition posted_ids :: "world \<Rightarrow> json list" where
  "posted_ids w = concat (map posted_id (events w))"

fun is_post :: "event \<Rightarrow> bool" where
  "is_post (PostInvoked pd) = True"
| "is_post ev = False"

definition stored_ids :: "world \<Rightarrow> json list" where
  "stored_ids w = map transaction_id (payments w)"

text \<open>
  The rows a response carries in \<^verbatim>\<open>data\<close>, and its \<^verbatim>\<open>pagination.count\<close> and
  \<^verbatim>\<open>pagination.limit\<close>.
\<close>

definition response_rows :: "response \<Rightarrow> json list" where
  "response_rows r = (case member (snd r) ''data'' of JArr rows \<Rightarrow> rows | _ \<Rightarrow> [])"

definition pagination_count :: "response \<Rightarrow> json" where
  "pagination_count r = member (member (snd r) ''pagination'') ''count''"

definition pagination_limit :: "response \<Rightarrow> json" where
  "pagination_limit r = member (member (snd r) ''pagination'') ''limit''"


definition has_member :: "json \<Rightarrow> string \<Rightarrow> bool" where
  "has_member v k = (member v k \<noteq> JUndefined)"




text \<open>
  Where the webhook handler writes a \<^verbatim>\<open>success\<close> member: \<^verbatim>\<open>success: true\<close> in the ping and
  the probe responses, and no such member in any other response.
\<close>

definition success_on_probes_only :: "response \<Rightarrow> bool" where
  "success_on_probes_only r =
     (if r = ping_response \<or> r = probe_response
      then member (snd r) ''success'' = JBool True
      else \<not> has_member (snd r) ''success'')"



text \<open>The world a run of the \<^verbatim>\<open>try\<close> body leaves, whether it responded or threw.\<close>

definition result_world :: "(exn \<times> world) + (response \<times> world) \<Rightarrow> world" where
  "result_world x = (case x of Inl (err, w) \<Rightarrow> w | Inr (r, w) \<Rightarrow> w)"

text \<open>
  What a run added to the trace, and the world once the pending row of a payment has been
  inserted.
\<close>

definition new_events :: "world \<Rightarrow> world \<Rightarrow> event list" where
  "new_events w w' = drop (length (events w)) (events w')"

definition with_pending :: "env \<Rightarrow> json \<Rightarrow> world \<Rightarrow> world" where
  "with_pending e pd w =
     w\<lparr>payments := payments w @ [pending_row (paymentRecord e pd)],
       events := events w @ [Inserted (member pd ''transaction_id'')]\<rparr>"

text \<open>The world after the webhook log entry of a request has been written.\<close>

definition logged :: "request \<Rightarrow> world \<Rightarrow> world" where
  "logged req w = w\<lparr>webhook_logs := webhook_logs w @ [webhook_log_entry req]\<rparr>"

subsection \<open>Example deliveries\<close>

text \<open>
  The external service answers \<^verbatim>\<open>{"id":9}\<close>; \<open>reply_text\<close> is that text, and the
  \<^verbatim>\<open>JSON.stringify\<close> of the examples gives it for that answer.
\<close>

definition uisp_reply :: json where
  "uisp_reply = JObj [(''id'', JNum ''9'')]"

definition reply_text :: string where
  "reply_text = ''{'' @ [CHR 0x22] @ ''id'' @ [CHR 0x22] @ '':9}''"

definition quiet_env :: env where
  "quiet_env =
     \<lparr>clock_start = millis 1700000000000, clock_synth = millis 1700000000001,
      clock_end = millis 1700000000005,
      iso_now = ''2023-11-14T22:13:20.001Z'',
      log_fault = None, lookup_fault = None, insert_fault = None,
      update_fault = None, update_fault_catch = None,
      stringify = (\<lambda>v. if v = uisp_reply then reply_text else ''null''),
      postPaymentToUISP = (\<lambda>pd. Inr uisp_reply)\<rparr>"

definition empty_world :: world where
  "empty_world = \<lparr>payments = [], webhook_logs = [], events = []\<rparr>"

definition request_of :: "json \<Rightarrow> request" where
  "request_of b =
     \<lparr>body = b, headers = JObj [], ip = JStr ''10.0.0.1'', remote_address = JUndefined,
      webhook_validated = JBool True\<rparr>"

text \<open>A world in which the payment \<^verbatim>\<open>T1\<close> of client 1 is stored, its post having failed.\<close>

definition stored_payment :: payment where
  "stored_payment =
     \<lparr>transaction_id = JStr ''T1'', client_id = JNum ''1'', amount = JNum ''100'',
      currency_code = JStr ''KES'', payment_type = JUndefined, payment_method = JUndefined,
      created_at = JStr ''2023-11-14T22:13:20.001Z'',
      status = ''failed'', response_payload = JNull, error_message = JStr ''timeout''\<rparr>"

definition one_payment_world :: world where
  "one_payment_world = \<lparr>payments = [stored_payment], webhook_logs = [], events = []\<rparr>"

text \<open>
  The webhook for \<^verbatim>\<open>T1\<close>, and for a new payment \<^verbatim>\<open>T2\<close>; a new payment \<^verbatim>\<open>T3\<close> whose
  client id is the object \<^verbatim>\<open>{"toString": 1}\<close>; an environment in which the external post
  fails, one in which the post succeeds but the storage refuses the status writes, one in
  which the storage refuses the insert, and one in which it refuses the webhook log.
\<close>

definition webhook_T1 :: request where
  "webhook_T1 =
     request_of (JObj [(''client_id'', JNum ''1''), (''amount'', JNum ''100''),
                       (''transaction_id'', JStr ''T1'')])"

definition payment_T2 :: json where
  "payment_T2 =
     JObj [(''client_id'', JNum ''1''), (''amount'', JNum ''100''),
           (''transaction_id'', JStr ''T2'')]"

definition payment_T3 :: json where
  "payment_T3 =
     JObj [(''client_id'', JObj [(''toString'', JNum ''1'')]), (''amount'', JNum ''100''),
           (''transaction_id'', JStr ''T3'')]"

definition failing_post_env :: env where
  "failing_post_env = quiet_env\<lparr>postPaymentToUISP := (\<lambda>pd. Inl ''UISP unreachable'')\<rparr>"

definition failing_update_env :: env where
  "failing_update_env =
     quiet_env\<lparr>update_fault := Some ''database is locked'',
               update_fault_catch := Some ''database is locked''\<rparr>"

definition failing_insert_env :: env where
  "failing_insert_env = quiet_env\<lparr>insert_fault := Some ''disk full''\<rparr>"

definition failing_log_env :: env where
  "failing_log_env = quiet_env\<lparr>log_fault := Some ''disk full''\<rparr>"


section \<open>Printing numbers\<close>

declare nat_to_string.simps [simp del]

declare skip_space.simps [simp del]

lemma digit_char_not_dash: "d < 10 \<Longrightarrow> digit_char d \<noteq> CHR ''-''"
proof -
  assume "d < 10"
  then have "d \<in> {0,1,2,3,4,5,6,7,8,9}" by auto
  then show ?thesis by (auto simp: digit_char_def)
qed

lemma digit_char_inj: "a < 10 \<Longrightarrow> b < 10 \<Longrightarrow> digit_char a = digit_char b \<Longrightarrow> a = b"
proof -
  assume "a < 10" "b < 10" and eq: "digit_char a = digit_char b"
  then have "a \<in> {0,1,2,3,4,5,6,7,8,9}" "b \<in> {0,1,2,3,4,5,6,7,8,9}" by auto
  with eq show ?thesis by (auto simp: digit_char_def)
qed

lemma nat_to_string_nonempty: "nat_to_string n \<noteq> []"
  by (subst nat_to_string.simps) simp

lemma nat_to_string_no_dash: "CHR ''-'' \<notin> set (nat_to_string n)"
proof (induction n rule: nat_to_string.induct)
  case (1 n)
  show ?case
  proof (cases "n < 10")
    case True
    then show ?thesis
      by (subst nat_to_string.simps) (use digit_char_not_dash[of n] in auto)
  next
    case False
    have "n mod 10 < 10" by simp
    with False 1 show ?thesis
      by (subst nat_to_string.simps) (use digit_char_not_dash[of "n mod 10"] in auto)
  qed
qed

lemma nat_to_string_inj: "nat_to_string n = nat_to_string m \<Longrightarrow> n = m"
proof (induction n arbitrary: m rule: nat_to_string.induct)
  case (1 n)
  show ?case
  proof (cases "n < 10")
    case n: True
    show ?thesis
    proof (cases "m < 10")
      case True
      with n "1.prems" show ?thesis
        by (simp add: nat_to_string.simps[of n] nat_to_string.simps[of m] digit_char_inj)
    next
      case False
      with n "1.prems" nat_to_string_nonempty[of "m div 10"] show ?thesis
        by (simp add: nat_to_string.simps[of n] nat_to_string.simps[of m])
    qed
  next
    case n: False
    show ?thesis
    proof (cases "m < 10")
      case True
      with n "1.prems" nat_to_string_nonempty[of "n div 10"] show ?thesis
        by (simp add: nat_to_string.simps[of n] nat_to_string.simps[of m])
    next
      case False
      with n "1.prems" have eq: "nat_to_string (n div 10) = nat_to_string (m div 10)"
        and d: "digit_char (n mod 10) = digit_char (m mod 10)"
        by (simp_all add: nat_to_string.simps[of n] nat_to_string.simps[of m])
      from "1.IH"[OF n eq] have "n div 10 = m div 10" .
      moreover from d have "n mod 10 = m mod 10" by (intro digit_char_inj) simp_all
      ultimately show ?thesis by (metis div_mult_mod_eq)
    qed
  qed
qed

text \<open>A numeral followed by a dash can be read back in one way only.\<close>

lemma split_at_dash:
  "CHR ''-'' \<notin> set a \<Longrightarrow> CHR ''-'' \<notin> set b \<Longrightarrow> a @ CHR ''-'' # x = b @ CHR ''-'' # y
     \<Longrightarrow> a = b \<and> x = y"
proof (induction a arbitrary: b)
  case Nil
  then show ?case by (cases b) auto
next
  case (Cons c a)
  then show ?case by (cases b) auto
qed

lemma decimal_delimited:
  assumes "decimal i @ CHR ''-'' # x = decimal j @ CHR ''-'' # y"
  shows "i = j \<and> x = y"
proof -
  have hd_pos: "\<And>n. hd (nat_to_string n) \<noteq> CHR ''-''"
    using nat_to_string_no_dash nat_to_string_nonempty by (metis hd_in_set)
  consider "i < 0" "j < 0" | "i < 0" "\<not> j < 0" | "\<not> i < 0" "j < 0" | "\<not> i < 0" "\<not> j < 0"
    by blast
  then show ?thesis
  proof cases
    case 1
    with assms have
      "nat_to_string (nat (- i)) @ CHR ''-'' # x = nat_to_string (nat (- j)) @ CHR ''-'' # y"
      by (simp add: decimal_def)
    then have "nat_to_string (nat (- i)) = nat_to_string (nat (- j)) \<and> x = y"
      by (intro split_at_dash nat_to_string_no_dash)
    with 1 show ?thesis by (auto dest: nat_to_string_inj)
  next
    case 2
    with assms have
      "CHR ''-'' # nat_to_string (nat (- i)) @ CHR ''-'' # x = nat_to_string (nat j) @ CHR ''-'' # y"
      by (simp add: decimal_def)
    then have "hd (nat_to_string (nat j) @ CHR ''-'' # y) = CHR ''-''" by (metis list.sel(1))
    with hd_pos[of "nat j"] nat_to_string_nonempty[of "nat j"] show ?thesis by simp
  next
    case 3
    with assms have
      "nat_to_string (nat i) @ CHR ''-'' # x = CHR ''-'' # nat_to_string (nat (- j)) @ CHR ''-'' # y"
      by (simp add: decimal_def)
    then have "hd (nat_to_string (nat i) @ CHR ''-'' # x) = CHR ''-''" by (metis list.sel(1))
    with hd_pos[of "nat i"] nat_to_string_nonempty[of "nat i"] show ?thesis by simp
  next
    case 4
    with assms have
      "nat_to_string (nat i) @ CHR ''-'' # x = nat_to_string (nat j) @ CHR ''-'' # y"
      by (simp add: decimal_def)
    then have "nat_to_string (nat i) = nat_to_string (nat j) \<and> x = y"
      by (intro split_at_dash nat_to_string_no_dash)
    with 4 show ?thesis by (auto dest: nat_to_string_inj)
  qed
qed

lemma decimal_inj: "decimal i = decimal j \<Longrightarrow> i = j"
  using decimal_delimited[of i "[]" j "[]"] by simp

lemma ms_of_inj: "millis_of t1 = millis_of t2 \<Longrightarrow> t1 = t2"
  by (simp add: millis_of.rep_eq Rep_time_value_inject)

lemma synthesized_id_eq_iff:
  "(synthesized_id t1 s1 = synthesized_id t2 s2) = (t1 = t2 \<and> s1 = s2)"
  using decimal_delimited[of "millis_of t1" s1 "millis_of t2" s2]
  by (auto simp: synthesized_id_def dest: ms_of_inj)

lemmas print_number = decimal_def nat_to_string.simps digit_char_def

lemmas time_simps = millis.rep_eq millis_of.rep_eq

lemmas parse_defs = parseInt_def js_to_string_def parse_int_def parse_radix_def digit_val_def
  to_number_def skip_space.simps ws_width_def ascii_spaces_def wide_spaces_def


section \<open>Reading and writing members\<close>

lemma truthy_member_object: "truthy (member pd k) \<Longrightarrow> \<exists>kvs. pd = JObj kvs"
  by (cases pd) simp_all

lemma member_set_member_same: "member (set_member (JObj kvs) k x) k = x"
  by (simp add: update_conv')

lemma member_set_member_other: "k' \<noteq> k \<Longrightarrow> member (set_member pd k x) k' = member pd k'"
  by (cases pd) (simp_all add: update_conv')


section \<open>Payload extraction\<close>

text \<open>
  Claim C4, as the code has it. For every attributes object \<open>a\<close> the bodies
  \<^verbatim>\<open>{data: {attributes: a}}\<close> and \<^verbatim>\<open>{payment: a}\<close> both extract \<open>a\<close>. The bare body
  \<open>a\<close> extracts \<open>a\<close> as well when \<open>a\<close> has no truthy \<^verbatim>\<open>data.attributes\<close> and no
  truthy \<^verbatim>\<open>payment\<close> member of its own. Every body that is not \<^verbatim>\<open>null\<close> or
  \<^verbatim>\<open>undefined\<close> and matches neither of the first two shapes is taken whole.
\<close>

theorem extraction_by_shape:
  "extract_payment_data (json_api_shape (JObj a)) = Inr (JObj a)
   \<and> extract_payment_data (envelope_shape (JObj a)) = Inr (JObj a)
   \<and> (\<not> truthy (member (member (JObj a) ''data'') ''attributes'')
        \<and> \<not> truthy (member (JObj a) ''payment'')
        \<longrightarrow> extract_payment_data (JObj a) = Inr (JObj a))
   \<and> (\<not> nullish b \<and> \<not> truthy (member (member b ''data'') ''attributes'')
        \<and> \<not> truthy (member b ''payment'')
        \<longrightarrow> extract_payment_data b = Inr b)"
  by (auto simp: extract_payment_data_def read_prop_def json_api_shape_def envelope_shape_def)

text \<open>The attributes \<^verbatim>\<open>{client_id: 1, amount: 100}\<close> in the three shapes, and an array body.\<close>

theorem extraction_by_shape_witness:
  "extract_payment_data (json_api_shape (JObj [(''client_id'', JNum ''1''), (''amount'', JNum ''100'')]))
     = Inr (JObj [(''client_id'', JNum ''1''), (''amount'', JNum ''100'')])
   \<and> extract_payment_data (envelope_shape (JObj [(''client_id'', JNum ''1''), (''amount'', JNum ''100'')]))
     = Inr (JObj [(''client_id'', JNum ''1''), (''amount'', JNum ''100'')])
   \<and> extract_payment_data (JObj [(''client_id'', JNum ''1''), (''amount'', JNum ''100'')])
     = Inr (JObj [(''client_id'', JNum ''1''), (''amount'', JNum ''100'')])
   \<and> extract_payment_data (JArr [JNum ''1'']) = Inr (JArr [JNum ''1''])"
  using extraction_by_shape[of "[(''client_id'', JNum ''1''), (''amount'', JNum ''100'')]" "JArr [JNum ''1'']"]
  by simp

text \<open>
  Attributes with a \<^verbatim>\<open>payment\<close> member of their own: in the envelope they are extracted
  whole, sent bare the handler takes the member for the payment data.
\<close>

theorem extraction_by_shape_counterexample:
  "extract_payment_data (envelope_shape
      (JObj [(''client_id'', JNum ''1''), (''amount'', JNum ''100''), (''payment'', JStr ''cash'')]))
     = Inr (JObj [(''client_id'', JNum ''1''), (''amount'', JNum ''100''), (''payment'', JStr ''cash'')])
   \<and> extract_payment_data
      (JObj [(''client_id'', JNum ''1''), (''amount'', JNum ''100''), (''payment'', JStr ''cash'')])
     = Inr (JStr ''cash'')"
  by (simp add: extract_payment_data_def read_prop_def envelope_shape_def)


section \<open>The handler before the idempotency check\<close>

lemma logged_simps [simp]:
  "payments (logged req w) = payments w" "events (logged req w) = events w"
  "webhook_logs (logged req w) = webhook_logs w @ [webhook_log_entry req]"
  by (simp_all add: logged_def)

lemma webhook_payment_log_failure:
  "log_fault e = Some m \<Longrightarrow> webhook_payment e req w = (internal_error_response (Failure m), w)"
  by (simp add: webhook_payment_def payment_try_def logWebhook_def)

lemma webhook_payment_early:
  "log_fault e = None \<Longrightarrow> validate_payload (clock_synth e) (body req) = Inr (Inl r)
     \<Longrightarrow> webhook_payment e req w = (r, logged req w)"
  by (simp add: webhook_payment_def payment_try_def logWebhook_def logged_def)

lemma webhook_payment_early_untouched:
  assumes "validate_payload (clock_synth e) (body req) = Inr (Inl r)"
  shows "payments (snd (webhook_payment e req w)) = payments w
       \<and> events (snd (webhook_payment e req w)) = events w"
proof (cases "log_fault e")
  case None
  from webhook_payment_early[OF None assms] show ?thesis by (simp add: logged_def)
next
  case (Some m)
  from webhook_payment_log_failure[OF Some] show ?thesis by simp
qed

lemma validate_payload_ping:
  "extract_payment_data b = Inr pd \<Longrightarrow> is_ping pd \<Longrightarrow> validate_payload now b = Inr (Inl ping_response)"
  by (simp add: validate_payload_def)

lemma validate_payload_missing:
  "extract_payment_data b = Inr pd \<Longrightarrow> \<not> is_ping pd \<Longrightarrow> missingFields (alias_client_id pd) \<noteq> []
   \<Longrightarrow> validate_payload now b =
        Inr (Inl (if keys_count (alias_client_id pd) < 3 then probe_response
                  else missing_response (missingFields (alias_client_id pd))))"
  by (simp add: validate_payload_def Let_def)

lemma validate_payload_complete:
  "extract_payment_data b = Inr pd \<Longrightarrow> \<not> is_ping pd \<Longrightarrow> missingFields (alias_client_id pd) = []
   \<Longrightarrow> validate_payload now b =
        (case ensure_transaction_id now (alias_client_id pd) of
           Inl err \<Rightarrow> Inl err
         | Inr pd' \<Rightarrow> Inr (Inr pd'))"
  by (simp add: validate_payload_def Let_def)

section \<open>Pings and probes\<close>

text \<open>
  Claim C6, as the code has it. When the payment data extracted from the body is falsy or
  has no keys (an empty body \<^verbatim>\<open>{}\<close>), the handler answers 200 with the ping message,
  writes no payment row and calls no external service. Its one effect is the webhook log
  entry, written at entry before the body is looked at; when that write fails the answer
  is 500 and nothing is written.
\<close>

theorem ping_writes_log_only:
  "extract_payment_data (body req) = Inr pd \<and> is_ping pd \<longrightarrow>
     (log_fault e = None \<longrightarrow> webhook_payment e req w = (ping_response, logged req w))
   \<and> (log_fault e = Some m \<longrightarrow> webhook_payment e req w = (internal_error_response (Failure m), w))
   \<and> payments (snd (webhook_payment e req w)) = payments w
   \<and> events (snd (webhook_payment e req w)) = events w
   \<and> fst ping_response = 200 \<and> fst (internal_error_response (Failure m)) = 500"
  using webhook_payment_early[of e req ping_response w] webhook_payment_log_failure[of e m req w]
    webhook_payment_early_untouched[of e req ping_response w]
    validate_payload_ping[of "body req" pd "clock_synth e"]
  by (simp add: ping_response_def internal_error_response_def)

text \<open>The empty body \<^verbatim>\<open>{}\<close>, with the storage working.\<close>

theorem ping_writes_log_only_witness:
  "webhook_payment quiet_env (request_of (JObj [])) empty_world
     = (ping_response, logged (request_of (JObj [])) empty_world)
   \<and> payments (snd (webhook_payment quiet_env (request_of (JObj [])) empty_world))
       = payments empty_world
   \<and> events (snd (webhook_payment quiet_env (request_of (JObj [])) empty_world))
       = events empty_world"
proof -
  have "extract_payment_data (body (request_of (JObj []))) = Inr (JObj []) \<and> is_ping (JObj [])"
    by (simp add: request_of_def extract_payment_data_def read_prop_def is_ping_def)
  moreover have "log_fault quiet_env = None" by (simp add: quiet_env_def)
  ultimately show ?thesis
    using ping_writes_log_only[of "request_of (JObj [])" "JObj []" quiet_env empty_world "''x''"]
    by simp
qed

text \<open>
  The empty body has a side effect: the world after the request holds one webhook log
  entry more.
\<close>

theorem ping_side_effect_counterexample:
  "snd (webhook_payment quiet_env (request_of (JObj [])) empty_world) \<noteq> empty_world
   \<and> webhook_logs (snd (webhook_payment quiet_env (request_of (JObj [])) empty_world))
       = [webhook_log_entry (request_of (JObj []))]"
proof -
  have "webhook_payment quiet_env (request_of (JObj [])) empty_world
     = (ping_response, logged (request_of (JObj [])) empty_world)"
    by (rule webhook_payment_early)
       (simp_all add: quiet_env_def request_of_def validate_payload_def extract_payment_data_def
          read_prop_def is_ping_def)
  then show ?thesis by (simp add: logged_def empty_world_def)
qed

lemma missing_response_simps:
  "fst probe_response = 200" "fst (missing_response ms) = 400"
  "member (snd (missing_response ms)) ''missingFields'' = JArr (map JStr ms)"
  by (simp_all add: probe_response_def missing_response_def)


section \<open>Required fields\<close>

text \<open>
  Claim C5, as the code has it. A field is missing when its value is falsy after the
  \<^verbatim>\<open>customer_id\<close> aliasing. For every payload that is no ping and misses
  \<^verbatim>\<open>client_id\<close> or \<^verbatim>\<open>amount\<close>, with the log write succeeding: when the payment data
  (after the aliasing) have fewer than 3 keys the handler answers 200 as to a probe,
  otherwise it answers 400 and lists the missing fields in \<^verbatim>\<open>missingFields\<close>; in both
  cases only the webhook log entry is written.
\<close>

theorem missing_field_probe_or_400:
  "extract_payment_data (body req) = Inr pd0 \<and> \<not> is_ping pd0
     \<and> missingFields (alias_client_id pd0) \<noteq> [] \<and> log_fault e = None \<longrightarrow>
     (keys_count (alias_client_id pd0) < 3 \<longrightarrow>
        webhook_payment e req w = (probe_response, logged req w))
   \<and> (\<not> keys_count (alias_client_id pd0) < 3 \<longrightarrow>
        webhook_payment e req w
          = (missing_response (missingFields (alias_client_id pd0)), logged req w))
   \<and> fst probe_response = 200
   \<and> fst (missing_response (missingFields (alias_client_id pd0))) = 400
   \<and> member (snd (missing_response (missingFields (alias_client_id pd0)))) ''missingFields''
       = JArr (map JStr (missingFields (alias_client_id pd0)))"
proof (intro impI)
  assume a: "extract_payment_data (body req) = Inr pd0 \<and> \<not> is_ping pd0
     \<and> missingFields (alias_client_id pd0) \<noteq> [] \<and> log_fault e = None"
  then have v: "validate_payload (clock_synth e) (body req) =
        Inr (Inl (if keys_count (alias_client_id pd0) < 3 then probe_response
                  else missing_response (missingFields (alias_client_id pd0))))"
    by (intro validate_payload_missing) simp_all
  from a have l: "log_fault e = None" by simp
  show "(keys_count (alias_client_id pd0) < 3 \<longrightarrow>
        webhook_payment e req w = (probe_response, logged req w))
   \<and> (\<not> keys_count (alias_client_id pd0) < 3 \<longrightarrow>
        webhook_payment e req w
          = (missing_response (missingFields (alias_client_id pd0)), logged req w))
   \<and> fst probe_response = 200
   \<and> fst (missing_response (missingFields (alias_client_id pd0))) = 400
   \<and> member (snd (missing_response (missingFields (alias_client_id pd0)))) ''missingFields''
       = JArr (map JStr (missingFields (alias_client_id pd0)))"
    using webhook_payment_early[OF l v, of w] by (simp add: missing_response_simps)
qed

lemmas validation_defs = extract_payment_data_def read_prop_def is_ping_def alias_client_id_def
  missingFields_def requiredFields_def

text \<open>
  \<^verbatim>\<open>{client_id: 1}\<close> is answered 200; \<^verbatim>\<open>{client_id: 1, foo: 1, bar: 2}\<close>, which has
  three keys, is answered 400 with \<^verbatim>\<open>missingFields = ["amount"]\<close>.
\<close>

theorem missing_field_probe_or_400_witness:
  "webhook_payment quiet_env (request_of (JObj [(''client_id'', JNum ''1'')])) empty_world
     = (probe_response, logged (request_of (JObj [(''client_id'', JNum ''1'')])) empty_world)
   \<and> webhook_payment quiet_env
        (request_of (JObj [(''client_id'', JNum ''1''), (''foo'', JNum ''1''), (''bar'', JNum ''2'')])) empty_world
     = (missing_response [''amount''],
        logged (request_of (JObj [(''client_id'', JNum ''1''), (''foo'', JNum ''1''), (''bar'', JNum ''2'')]))
          empty_world)"
proof -
  let ?a = "JObj [(''client_id'', JNum ''1'')]"
  let ?b = "JObj [(''client_id'', JNum ''1''), (''foo'', JNum ''1''), (''bar'', JNum ''2'')]"
  have q: "log_fault quiet_env = None" by (simp add: quiet_env_def)
  have a: "extract_payment_data (body (request_of ?a)) = Inr ?a \<and> \<not> is_ping ?a
      \<and> missingFields (alias_client_id ?a) = [''amount''] \<and> keys_count (alias_client_id ?a) = 1"
    by (simp add: request_of_def validation_defs)
  have b: "extract_payment_data (body (request_of ?b)) = Inr ?b \<and> \<not> is_ping ?b
      \<and> missingFields (alias_client_id ?b) = [''amount''] \<and> keys_count (alias_client_id ?b) = 3"
    by (simp add: request_of_def validation_defs)
  show ?thesis
    using missing_field_probe_or_400[of "request_of ?a" ?a quiet_env empty_world]
      missing_field_probe_or_400[of "request_of ?b" ?b quiet_env empty_world] q a b
    by simp
qed

text \<open>
  \<^verbatim>\<open>{client_id: 1, amount: 100, foo: 1}\<close> with either required field removed has two keys
  and is answered 200, not 400. And \<^verbatim>\<open>{customer_id: 5, foo: 1}\<close>, two keys as received,
  is answered 400, since the aliasing has added \<^verbatim>\<open>client_id\<close> before the keys are
  counted.
\<close>

theorem missing_field_400_counterexample:
  "fst (fst (webhook_payment quiet_env
        (request_of (JObj [(''amount'', JNum ''100''), (''foo'', JNum ''1'')])) empty_world)) = 200
   \<and> fst (fst (webhook_payment quiet_env
        (request_of (JObj [(''client_id'', JNum ''1''), (''foo'', JNum ''1'')])) empty_world)) = 200
   \<and> keys_count (JObj [(''customer_id'', JNum ''5''), (''foo'', JNum ''1'')]) = 2
   \<and> fst (fst (webhook_payment quiet_env
        (request_of (JObj [(''customer_id'', JNum ''5''), (''foo'', JNum ''1'')])) empty_world)) = 400"
proof -
  let ?a = "JObj [(''amount'', JNum ''100''), (''foo'', JNum ''1'')]"
  let ?b = "JObj [(''client_id'', JNum ''1''), (''foo'', JNum ''1'')]"
  let ?c = "JObj [(''customer_id'', JNum ''5''), (''foo'', JNum ''1'')]"
  have q: "log_fault quiet_env = None" by (simp add: quiet_env_def)
  have "validate_payload (clock_synth quiet_env) (body (request_of ?a)) = Inr (Inl probe_response)"
    by (simp add: validate_payload_def request_of_def validation_defs)
  from webhook_payment_early[OF q this]
  have a: "fst (fst (webhook_payment quiet_env (request_of ?a) empty_world)) = 200"
    by (simp add: probe_response_def)
  have "validate_payload (clock_synth quiet_env) (body (request_of ?b)) = Inr (Inl probe_response)"
    by (simp add: validate_payload_def request_of_def validation_defs)
  from webhook_payment_early[OF q this]
  have b: "fst (fst (webhook_payment quiet_env (request_of ?b) empty_world)) = 200"
    by (simp add: probe_response_def)
  have "validate_payload (clock_synth quiet_env) (body (request_of ?c))
      = Inr (Inl (missing_response [''amount'']))"
    by (simp add: validate_payload_def request_of_def validation_defs)
  from webhook_payment_early[OF q this]
  have c: "fst (fst (webhook_payment quiet_env (request_of ?c) empty_world)) = 400"
    by (simp add: missing_response_def)
  from a b c show ?thesis by simp
qed

lemma alias_keeps_amount: "member (alias_client_id pd) ''amount'' = member pd ''amount''"
  by (simp add: alias_client_id_def member_set_member_other del: set_member.simps member.simps)

lemma alias_falsy_customer: "\<not> truthy (member pd ''customer_id'') \<Longrightarrow> alias_client_id pd = pd"
  by (simp add: alias_client_id_def)

lemma missingFields_iff:
  "(''client_id'' \<in> set (missingFields pd)) = (\<not> truthy (member pd ''client_id''))"
  "(''amount'' \<in> set (missingFields pd)) = (\<not> truthy (member pd ''amount''))"
  by (auto simp: missingFields_def requiredFields_def)

text \<open>
  Claim C10, as the code has it. Presence is tested by truthiness, after the aliasing. For
  every payload that is no ping: when \<^verbatim>\<open>amount\<close> is falsy, or \<^verbatim>\<open>client_id\<close> is falsy
  and \<^verbatim>\<open>customer_id\<close> is falsy too, that field is counted as missing and the payload is
  answered as a probe or with 400; no payment row is written and the external post is not
  invoked. A falsy \<^verbatim>\<open>customer_id\<close> is never copied into \<^verbatim>\<open>client_id\<close>.
\<close>

theorem falsy_required_field_is_missing:
  "(extract_payment_data (body req) = Inr pd0 \<and> \<not> is_ping pd0
     \<and> ((\<not> truthy (member pd0 ''client_id'') \<and> \<not> truthy (member pd0 ''customer_id''))
          \<or> \<not> truthy (member pd0 ''amount'')) \<longrightarrow>
       validate_payload now (body req)
         = Inr (Inl (if keys_count (alias_client_id pd0) < 3 then probe_response
                     else missing_response (missingFields (alias_client_id pd0))))
     \<and> ((\<not> truthy (member pd0 ''client_id'') \<and> \<not> truthy (member pd0 ''customer_id''))
          \<longrightarrow> ''client_id'' \<in> set (missingFields (alias_client_id pd0)))
     \<and> (\<not> truthy (member pd0 ''amount'')
          \<longrightarrow> ''amount'' \<in> set (missingFields (alias_client_id pd0)))
     \<and> payments (snd (webhook_payment e req w)) = payments w
     \<and> events (snd (webhook_payment e req w)) = events w)
   \<and> (\<not> truthy (member pd ''customer_id'') \<longrightarrow> alias_client_id pd = pd)"
proof (intro conjI impI)
  assume a: "extract_payment_data (body req) = Inr pd0 \<and> \<not> is_ping pd0
     \<and> ((\<not> truthy (member pd0 ''client_id'') \<and> \<not> truthy (member pd0 ''customer_id''))
          \<or> \<not> truthy (member pd0 ''amount''))"
  have c: "\<not> truthy (member pd0 ''client_id'') \<and> \<not> truthy (member pd0 ''customer_id'')
      \<Longrightarrow> ''client_id'' \<in> set (missingFields (alias_client_id pd0))"
    by (simp add: missingFields_iff alias_falsy_customer)
  have m: "\<not> truthy (member pd0 ''amount'')
      \<Longrightarrow> ''amount'' \<in> set (missingFields (alias_client_id pd0))"
    by (simp add: missingFields_iff alias_keeps_amount)
  from a c m have ne: "missingFields (alias_client_id pd0) \<noteq> []" by auto
  with a show v: "validate_payload now (body req)
         = Inr (Inl (if keys_count (alias_client_id pd0) < 3 then probe_response
                     else missing_response (missingFields (alias_client_id pd0))))" for now
    by (intro validate_payload_missing) simp_all
  from webhook_payment_early_untouched[OF v]
  show "payments (snd (webhook_payment e req w)) = payments w"
    and "events (snd (webhook_payment e req w)) = events w" by simp_all
  { assume "\<not> truthy (member pd0 ''client_id'') \<and> \<not> truthy (member pd0 ''customer_id'')"
    then show "''client_id'' \<in> set (missingFields (alias_client_id pd0))" by (rule c) }
  { assume "\<not> truthy (member pd0 ''amount'')"
    then show "''amount'' \<in> set (missingFields (alias_client_id pd0))" by (rule m) }
next
  assume "\<not> truthy (member pd ''customer_id'')"
  then show "alias_client_id pd = pd" by (rule alias_falsy_customer)
qed


lemmas gateway_defs = logWebhook_def getPaymentByTransactionId_def insertPayment_def
  updatePaymentStatus_def set_status_def pending_row_def

lemmas handler_defs = webhook_payment_def payment_try_def validate_payload_def validation_defs
  ensure_transaction_id_def synthesized_id_def process_payment_def paymentRecord_def
  post_and_finalize_def try_post_def JSON_stringify_def or_else_def webhook_log_entry_def
  Let_def

text \<open>
  \<^verbatim>\<open>{client_id: 0, amount: 100, foo: 1}\<close> is answered 400 with \<^verbatim>\<open>client_id\<close> missing;
  \<^verbatim>\<open>{client_id: 5, amount: ""}\<close> is answered as a probe; the falsy \<^verbatim>\<open>customer_id: 0\<close>
  is not copied.
\<close>

theorem falsy_required_field_is_missing_witness:
  "validate_payload (millis 1700000000001)
      (body (request_of (JObj [(''client_id'', JNum ''0''), (''amount'', JNum ''100''), (''foo'', JNum ''1'')])))
     = Inr (Inl (missing_response [''client_id'']))
   \<and> validate_payload (millis 1700000000001)
      (body (request_of (JObj [(''client_id'', JNum ''5''), (''amount'', JStr [])])))
     = Inr (Inl probe_response)
   \<and> payments (snd (webhook_payment quiet_env
        (request_of (JObj [(''client_id'', JNum ''0''), (''amount'', JNum ''100''), (''foo'', JNum ''1'')]))
        empty_world)) = payments empty_world
   \<and> events (snd (webhook_payment quiet_env
        (request_of (JObj [(''client_id'', JNum ''0''), (''amount'', JNum ''100''), (''foo'', JNum ''1'')]))
        empty_world)) = events empty_world
   \<and> alias_client_id (JObj [(''customer_id'', JNum ''0''), (''amount'', JNum ''100'')])
     = JObj [(''customer_id'', JNum ''0''), (''amount'', JNum ''100'')]"
proof -
  let ?a = "JObj [(''client_id'', JNum ''0''), (''amount'', JNum ''100''), (''foo'', JNum ''1'')]"
  let ?b = "JObj [(''client_id'', JNum ''5''), (''amount'', JStr [])]"
  let ?c = "JObj [(''customer_id'', JNum ''0''), (''amount'', JNum ''100'')]"
  have a: "extract_payment_data (body (request_of ?a)) = Inr ?a \<and> \<not> is_ping ?a
      \<and> \<not> truthy (member ?a ''client_id'') \<and> \<not> truthy (member ?a ''customer_id'')
      \<and> missingFields (alias_client_id ?a) = [''client_id''] \<and> keys_count (alias_client_id ?a) = 3"
    by (simp add: request_of_def validation_defs)
  have b: "extract_payment_data (body (request_of ?b)) = Inr ?b \<and> \<not> is_ping ?b
      \<and> \<not> truthy (member ?b ''amount'') \<and> keys_count (alias_client_id ?b) = 2"
    by (simp add: request_of_def validation_defs)
  have c: "\<not> truthy (member ?c ''customer_id'')" by simp
  show ?thesis
    using falsy_required_field_is_missing[of "request_of ?a" ?a "millis 1700000000001" quiet_env empty_world ?c]
      falsy_required_field_is_missing[of "request_of ?b" ?b "millis 1700000000001" quiet_env empty_world ?c]
      a b c
    by simp
qed

text \<open>
  A falsy \<^verbatim>\<open>client_id\<close> next to a truthy \<^verbatim>\<open>customer_id\<close> is not counted as missing: the
  aliasing overwrites it, and the payment is processed for client 7.
\<close>

theorem falsy_client_id_processed_counterexample:
  "\<not> truthy (member (JObj [(''client_id'', JNum ''0''), (''customer_id'', JNum ''7''), (''amount'', JNum ''100'')])
        ''client_id'')
   \<and> missingFields (alias_client_id
        (JObj [(''client_id'', JNum ''0''), (''customer_id'', JNum ''7''), (''amount'', JNum ''100'')])) = []
   \<and> fst (webhook_payment quiet_env
        (request_of (JObj [(''client_id'', JNum ''0''), (''customer_id'', JNum ''7''), (''amount'', JNum ''100'')]))
        empty_world)
     = success_response quiet_env (JStr ''SPLYNX-1700000000001-7'') (JObj [(''id'', JNum ''9'')])
   \<and> map client_id (payments (snd (webhook_payment quiet_env
        (request_of (JObj [(''client_id'', JNum ''0''), (''customer_id'', JNum ''7''), (''amount'', JNum ''100'')]))
        empty_world))) = [JNum ''7'']"
  by (simp add: handler_defs gateway_defs parse_defs time_simps request_of_def quiet_env_def
      empty_world_def uisp_reply_def print_number)


section \<open>What a run answers\<close>















section \<open>What a run does to the stored payments and to the trace\<close>

lemma set_status_id [simp]: "transaction_id (set_status tid st r er p) = transaction_id p"
  by (simp add: set_status_def)

lemma map_set_status_ids [simp]:
  "map (transaction_id \<circ> set_status tid st r er) ps = map transaction_id ps"
  by (induction ps) simp_all

lemma set_status_other:
  "tid \<notin> set (map transaction_id ps) \<Longrightarrow> map (set_status tid st r er) ps = ps"
  by (induction ps) (auto simp: set_status_def)

lemma lookup_none_iff:
  "(find (\<lambda>p. transaction_id p = tid) (payments w) = None) = (tid \<notin> set (stored_ids w))"
  by (auto simp: find_None_iff stored_ids_def)

lemma lookup_some_stored:
  "find (\<lambda>p. transaction_id p = tid) (payments w) = Some p \<Longrightarrow> tid \<in> set (stored_ids w)"
  using lookup_none_iff[of tid w] by auto

lemma paymentRecord_id [simp]:
  "transaction_id (paymentRecord e pd) = member pd ''transaction_id''"
  by (simp add: paymentRecord_def)

lemma insertPayment_ok:
  "member pd ''transaction_id'' \<notin> set (stored_ids w)
     \<Longrightarrow> insertPayment None (paymentRecord e pd) w = Inr (with_pending e pd w)"
  by (simp add: insertPayment_def with_pending_def stored_ids_def)

lemma insertPayment_cases:
  "insertPayment f (paymentRecord e pd) w = Inr w' \<Longrightarrow>
     member pd ''transaction_id'' \<notin> set (stored_ids w) \<and> w' = with_pending e pd w"
  by (auto simp: insertPayment_def with_pending_def stored_ids_def split: option.splits if_splits)

lemma with_pending_simps [simp]:
  "payments (with_pending e pd w) = payments w @ [pending_row (paymentRecord e pd)]"
  "events (with_pending e pd w) = events w @ [Inserted (member pd ''transaction_id'')]"
  "webhook_logs (with_pending e pd w) = webhook_logs w"
  "stored_ids (with_pending e pd w) = stored_ids w @ [member pd ''transaction_id'']"
  by (simp_all add: with_pending_def stored_ids_def pending_row_def)

lemma stored_ids_logged [simp]: "stored_ids (logged req w) = stored_ids w"
  by (simp add: stored_ids_def)

text \<open>
  A run either leaves the trace and the stored ids as they are, or adds the insert of one
  new id followed by one post for it.
\<close>

lemma try_post_effects:
  "\<exists>rest. events (result_world (try_post e pd w)) = events w @ PostInvoked pd # rest
      \<and> \<not> list_ex is_post rest
      \<and> stored_ids (result_world (try_post e pd w)) = stored_ids w"
  by (auto simp: try_post_def Let_def result_world_def updatePaymentStatus_def stored_ids_def
      split: sum.splits option.splits)

lemma post_and_finalize_effects:
  "\<exists>rest. events (result_world (post_and_finalize e pd w)) = events w @ PostInvoked pd # rest
      \<and> \<not> list_ex is_post rest
      \<and> stored_ids (result_world (post_and_finalize e pd w)) = stored_ids w"
proof -
  from try_post_effects[of e pd w] obtain rest where
    r: "events (result_world (try_post e pd w)) = events w @ PostInvoked pd # rest"
       "\<not> list_ex is_post rest"
       "stored_ids (result_world (try_post e pd w)) = stored_ids w" by blast
  show ?thesis
  proof (cases "try_post e pd w")
    case (Inr b)
    with r show ?thesis by (auto simp: post_and_finalize_def)
  next
    case (Inl a)
    obtain err w1 where a: "a = (err, w1)" by (cases a)
    from r Inl a have w1: "events w1 = events w @ PostInvoked pd # rest" "stored_ids w1 = stored_ids w"
      by (simp_all add: result_world_def)
    show ?thesis
    proof (cases "update_fault_catch e")
      case None
      with Inl a w1 r(2) show ?thesis
        by (auto simp: post_and_finalize_def updatePaymentStatus_def result_world_def stored_ids_def)
    next
      case (Some m)
      with Inl a w1 r(2) show ?thesis
        by (auto simp: post_and_finalize_def updatePaymentStatus_def result_world_def)
    qed
  qed
qed

lemma process_payment_effects:
  "(events (result_world (process_payment e pd w)) = events w
      \<and> stored_ids (result_world (process_payment e pd w)) = stored_ids w)
   \<or> (\<exists>rest. events (result_world (process_payment e pd w))
          = events w @ Inserted (member pd ''transaction_id'') # PostInvoked pd # rest
        \<and> \<not> list_ex is_post rest
        \<and> member pd ''transaction_id'' \<notin> set (stored_ids w)
        \<and> stored_ids (result_world (process_payment e pd w))
            = stored_ids w @ [member pd ''transaction_id''])"
proof (cases "getPaymentByTransactionId (lookup_fault e) (member pd ''transaction_id'') w")
  case (Inl a)
  then show ?thesis by (simp add: process_payment_def result_world_def)
next
  case (Inr found)
  show ?thesis
  proof (cases found)
    case (Some p)
    with Inr show ?thesis by (simp add: process_payment_def result_world_def)
  next
    case None
    show ?thesis
    proof (cases "insertPayment (insert_fault e) (paymentRecord e pd) w")
      case (Inl a)
      with Inr None show ?thesis by (simp add: process_payment_def result_world_def)
    next
      case ins: (Inr w1)
      from insertPayment_cases[OF ins]
      have fresh: "member pd ''transaction_id'' \<notin> set (stored_ids w)"
        and w1: "w1 = with_pending e pd w" by simp_all
      from Inr None ins w1
      have p: "process_payment e pd w = post_and_finalize e pd (with_pending e pd w)"
        by (simp add: process_payment_def)
      from post_and_finalize_effects[of e pd "with_pending e pd w"] fresh
      show ?thesis unfolding p by auto
    qed
  qed
qed

lemma snd_webhook_payment: "snd (webhook_payment e req w) = result_world (payment_try e req w)"
  by (auto simp: webhook_payment_def result_world_def split: sum.splits prod.splits)

lemma webhook_payment_effects:
  "(events (snd (webhook_payment e req w)) = events w
      \<and> stored_ids (snd (webhook_payment e req w)) = stored_ids w)
   \<or> (\<exists>pd rest. events (snd (webhook_payment e req w))
          = events w @ Inserted (member pd ''transaction_id'') # PostInvoked pd # rest
        \<and> \<not> list_ex is_post rest
        \<and> member pd ''transaction_id'' \<notin> set (stored_ids w)
        \<and> stored_ids (snd (webhook_payment e req w))
            = stored_ids w @ [member pd ''transaction_id''])"
proof (cases "log_fault e")
  case (Some m)
  then show ?thesis by (simp add: webhook_payment_log_failure)
next
  case None
  show ?thesis
  proof (cases "validate_payload (clock_synth e) (body req)")
    case (Inl err)
    with None show ?thesis
      by (simp add: snd_webhook_payment payment_try_def logWebhook_def result_world_def
          stored_ids_def)
  next
    case (Inr v)
    show ?thesis
    proof (cases v)
      case (Inl r)
      with Inr None show ?thesis
        by (simp add: snd_webhook_payment payment_try_def logWebhook_def result_world_def
          stored_ids_def)
    next
      case pd: (Inr pd)
      with Inr None
      have p: "payment_try e req w = process_payment e pd (logged req w)"
        by (simp add: payment_try_def logWebhook_def logged_def)
      from process_payment_effects[of e pd "logged req w"]
      show ?thesis unfolding snd_webhook_payment p by auto
    qed
  qed
qed


section \<open>Deliveries one after the other\<close>

lemma no_post_no_ids: "\<not> list_ex is_post evs \<Longrightarrow> concat (map posted_id evs) = []"
proof (induction evs)
  case Nil
  then show ?case by simp
next
  case (Cons ev evs)
  then show ?case by (cases ev) simp_all
qed

lemma post_count_posted_ids: "post_count tid w = count_list (posted_ids w) tid"
proof -
  have "length (filter (is_post_for tid) evs) = count_list (concat (map posted_id evs)) tid" for evs
  proof (induction evs)
    case Nil
    then show ?case by simp
  next
    case (Cons ev evs)
    then show ?case by (cases ev) simp_all
  qed
  then show ?thesis by (simp add: post_count_def posted_ids_def)
qed

lemma distinct_count_le_1: "distinct xs \<Longrightarrow> count_list xs x \<le> 1"
  by (induction xs) (auto simp: count_list_0_iff)

lemma deliver_keeps_invariant:
  assumes "distinct (posted_ids w)" and "set (posted_ids w) \<subseteq> set (stored_ids w)"
  shows "distinct (posted_ids (deliver w d)) \<and> set (posted_ids (deliver w d)) \<subseteq> set (stored_ids (deliver w d))"
proof -
  let ?w' = "snd (webhook_payment (fst d) (snd d) w)"
  from webhook_payment_effects[of "fst d" "snd d" w]
  consider (same) "events ?w' = events w" "stored_ids ?w' = stored_ids w"
    | (posted) pd rest where
        "events ?w' = events w @ Inserted (member pd ''transaction_id'') # PostInvoked pd # rest"
        "\<not> list_ex is_post rest" "member pd ''transaction_id'' \<notin> set (stored_ids w)"
        "stored_ids ?w' = stored_ids w @ [member pd ''transaction_id'']"
    by blast
  then show ?thesis
  proof cases
    case same
    with assms show ?thesis by (simp add: deliver_def posted_ids_def)
  next
    case posted
    from posted(1,2) have "posted_ids ?w' = posted_ids w @ [member pd ''transaction_id'']"
      by (simp add: posted_ids_def no_post_no_ids)
    with posted(3,4) assms show ?thesis by (auto simp: deliver_def)
  qed
qed

lemma deliver_all_keeps_invariant:
  "distinct (posted_ids w) \<Longrightarrow> set (posted_ids w) \<subseteq> set (stored_ids w)
     \<Longrightarrow> distinct (posted_ids (deliver_all w ds))"
proof (induction ds arbitrary: w)
  case Nil
  then show ?case by (simp add: deliver_all_def)
next
  case (Cons d ds)
  from deliver_keeps_invariant[OF Cons.prems, of d]
  have "distinct (posted_ids (deliver_all (deliver w d) ds))"
    by (intro Cons.IH) simp_all
  then show ?case by (simp add: deliver_all_def)
qed

lemma at_most_one_post:
  "events w = [] \<Longrightarrow> post_count tid (deliver_all w ds) \<le> 1"
proof -
  assume "events w = []"
  then have "distinct (posted_ids w)" "set (posted_ids w) \<subseteq> set (stored_ids w)"
    by (simp_all add: posted_ids_def)
  then have "distinct (posted_ids (deliver_all w ds))" by (rule deliver_all_keeps_invariant)
  from distinct_count_le_1[OF this, of tid] show ?thesis by (simp add: post_count_posted_ids)
qed


section \<open>The runs of a stored and of a new transaction id\<close>

lemma duplicate_run:
  assumes v: "validate_payload (clock_synth e) (body req) = Inr (Inr pd)"
    and f: "find (\<lambda>p. transaction_id p = member pd ''transaction_id'') (payments w) = Some p"
  shows "payments (snd (webhook_payment e req w)) = payments w"
    and "events (snd (webhook_payment e req w)) = events w"
    and "log_fault e = None \<Longrightarrow> lookup_fault e = None \<Longrightarrow>
          webhook_payment e req w
            = (duplicate_response (member pd ''transaction_id'') p, logged req w)"
proof -
  have *: "payments (snd (webhook_payment e req w)) = payments w
      \<and> events (snd (webhook_payment e req w)) = events w"
  proof (cases "log_fault e")
    case (Some m)
    then show ?thesis by (simp add: webhook_payment_log_failure)
  next
    case None
    with v f show ?thesis
      by (cases "lookup_fault e")
         (simp_all add: webhook_payment_def payment_try_def logWebhook_def process_payment_def
            getPaymentByTransactionId_def)
  qed
  then show "payments (snd (webhook_payment e req w)) = payments w"
    and "events (snd (webhook_payment e req w)) = events w" by simp_all
  show "webhook_payment e req w
            = (duplicate_response (member pd ''transaction_id'') p, logged req w)"
    if "log_fault e = None" "lookup_fault e = None"
    using that v f
    by (simp add: webhook_payment_def payment_try_def logWebhook_def process_payment_def
            getPaymentByTransactionId_def logged_def)
qed

lemma reach_insert:
  assumes "validate_payload (clock_synth e) (body req) = Inr (Inr pd)"
    and "log_fault e = None" and "lookup_fault e = None"
    and "member pd ''transaction_id'' \<notin> set (stored_ids w)"
  shows "insert_fault e = None \<Longrightarrow>
           payment_try e req w = post_and_finalize e pd (with_pending e pd (logged req w))"
    and "insert_fault e = Some m \<Longrightarrow> payment_try e req w = Inl (Failure m, logged req w)"
proof -
  from assms(4) have n: "find (\<lambda>p. transaction_id p = member pd ''transaction_id'')
      (payments (logged req w)) = None"
    by (simp add: lookup_none_iff)
  from assms(4) have s: "member pd ''transaction_id'' \<notin> set (stored_ids (logged req w))" by simp
  show "payment_try e req w = post_and_finalize e pd (with_pending e pd (logged req w))"
    if "insert_fault e = None"
    using that assms(1-3) n insertPayment_ok[OF s, of e]
    by (simp add: payment_try_def logWebhook_def process_payment_def getPaymentByTransactionId_def
        logged_def[symmetric])
  show "payment_try e req w = Inl (Failure m, logged req w)" if "insert_fault e = Some m"
    using that assms(1-3) n
    by (simp add: payment_try_def logWebhook_def process_payment_def getPaymentByTransactionId_def
        insertPayment_def logged_def[symmetric])
qed

lemma new_events_append [simp]: "events w' = events w @ evs \<Longrightarrow> new_events w w' = evs"
  by (simp add: new_events_def)

lemma new_events_same [simp]: "events w' = events w \<Longrightarrow> new_events w w' = []"
  by (simp add: new_events_def)

lemma updatePaymentStatus_pending:
  assumes "member pd ''transaction_id'' \<notin> set (stored_ids w)"
  shows "updatePaymentStatus None (member pd ''transaction_id'') st r er
           ((with_pending e pd w)\<lparr>events := evs\<rparr>)
       = Inr ((with_pending e pd w)
               \<lparr>events := evs @ [StatusUpdated (member pd ''transaction_id'') st],
                payments := payments w @
                  [(pending_row (paymentRecord e pd))
                     \<lparr>status := st, response_payload := r, error_message := er\<rparr>]\<rparr>)"
proof -
  from assms have "map (set_status (member pd ''transaction_id'') st r er) (payments w) = payments w"
    by (intro set_status_other) (simp add: stored_ids_def)
  then show ?thesis
    by (simp add: updatePaymentStatus_def with_pending_def set_status_def pending_row_def)
qed

lemma post_success_run:
  assumes "member pd ''transaction_id'' \<notin> set (stored_ids w)"
    and "postPaymentToUISP e pd = Inr resp" and "update_fault e = None"
    and "js_to_string (member pd ''client_id'') = Inr s"
  shows "\<exists>w'. post_and_finalize e pd (with_pending e pd w)
          = Inr (success_response e (member pd ''transaction_id'') resp, w')
        \<and> payments w' = payments w @
            [(pending_row (paymentRecord e pd))
               \<lparr>status := ''success'', response_payload := JSON_stringify e resp,
                error_message := JNull\<rparr>]
        \<and> events w' = events w @
            [Inserted (member pd ''transaction_id''), PostInvoked pd,
             StatusUpdated (member pd ''transaction_id'') ''success'',
             SyncStarted (parse_int s)]"
  using assms(2,3,4) updatePaymentStatus_pending[OF assms(1), where st="''success''"
      and r="JSON_stringify e resp" and er=JNull and e=e
      and evs="events w @ [Inserted (member pd ''transaction_id''), PostInvoked pd]"]
  by (simp add: post_and_finalize_def try_post_def parseInt_def Let_def)

text \<open>
  The throw of line 130: the post and the status write have succeeded, printing the
  client id throws, and the \<^verbatim>\<open>catch\<close> writes the row as failed.
\<close>

lemma sync_throw_run:
  assumes "member pd ''transaction_id'' \<notin> set (stored_ids w)"
    and "postPaymentToUISP e pd = Inr resp" and "update_fault e = None"
    and "update_fault_catch e = None"
    and "js_to_string (member pd ''client_id'') = Inl err"
  shows "\<exists>w'. post_and_finalize e pd (with_pending e pd w)
          = Inr (uisp_failure_response (member pd ''transaction_id'') err, w')
        \<and> payments w' = payments w @
            [(pending_row (paymentRecord e pd))
               \<lparr>status := ''failed'', response_payload := JNull,
                error_message := JStr (exn_message err)\<rparr>]"
proof -
  have old: "map (set_status (member pd ''transaction_id'') st r er) (payments w) = payments w"
    for st r er
    using assms(1) by (intro set_status_other) (simp add: stored_ids_def)
  have new: "transaction_id (pending_row (paymentRecord e pd)) = member pd ''transaction_id''"
    by (simp add: pending_row_def)
  from assms(2-5) show ?thesis
    by (simp add: post_and_finalize_def try_post_def parseInt_def Let_def
        updatePaymentStatus_def with_pending_def old)
       (simp add: set_status_def new)
qed

lemma post_failure_run:
  assumes "member pd ''transaction_id'' \<notin> set (stored_ids w)"
    and "postPaymentToUISP e pd = Inl m" and "update_fault_catch e = None"
  shows "\<exists>w'. post_and_finalize e pd (with_pending e pd w)
          = Inr (uisp_failure_response (member pd ''transaction_id'') (Failure m), w')
        \<and> payments w' = payments w @
            [(pending_row (paymentRecord e pd))
               \<lparr>status := ''failed'', response_payload := JNull, error_message := JStr m\<rparr>]
        \<and> events w' = events w @
            [Inserted (member pd ''transaction_id''), PostInvoked pd,
             StatusUpdated (member pd ''transaction_id'') ''failed'']"
  using assms(2,3) updatePaymentStatus_pending[OF assms(1), where st="''failed''"
      and r=JNull and er="JStr m" and e=e
      and evs="events w @ [Inserted (member pd ''transaction_id''), PostInvoked pd]"]
  by (simp add: post_and_finalize_def try_post_def Let_def)


section \<open>The example deliveries\<close>

lemmas example_defs = quiet_env_def failing_post_env_def failing_update_env_def
  failing_insert_env_def failing_log_env_def empty_world_def one_payment_world_def
  stored_payment_def request_of_def webhook_T1_def payment_T2_def payment_T3_def uisp_reply_def

lemma validate_T1:
  "validate_payload now (body webhook_T1)
     = Inr (Inr (JObj [(''client_id'', JNum ''1''), (''amount'', JNum ''100''),
                       (''transaction_id'', JStr ''T1'')]))"
  by (simp add: validate_payload_def validation_defs ensure_transaction_id_def example_defs)

lemma validate_T2: "validate_payload now (body (request_of payment_T2)) = Inr (Inr payment_T2)"
  by (simp add: validate_payload_def validation_defs ensure_transaction_id_def example_defs)

lemma validate_T3: "validate_payload now (body (request_of payment_T3)) = Inr (Inr payment_T3)"
  by (simp add: validate_payload_def validation_defs ensure_transaction_id_def example_defs)

lemma member_T2:
  "member payment_T2 ''transaction_id'' = JStr ''T2''"
  "js_to_string (member payment_T2 ''client_id'') = Inr ''1''"
  by (simp_all add: payment_T2_def js_to_string_def)

lemma member_T3:
  "member payment_T3 ''transaction_id'' = JStr ''T3''"
  "js_to_string (member payment_T3 ''client_id'') = Inl NotPrimitive"
  by (simp_all add: payment_T3_def js_to_string_def)

lemma example_faults:
  "log_fault quiet_env = None" "lookup_fault quiet_env = None" "insert_fault quiet_env = None"
  "update_fault quiet_env = None" "update_fault_catch quiet_env = None"
  "postPaymentToUISP quiet_env pd = Inr uisp_reply"
  "log_fault failing_post_env = None" "lookup_fault failing_post_env = None"
  "insert_fault failing_post_env = None" "update_fault_catch failing_post_env = None"
  "postPaymentToUISP failing_post_env pd = Inl ''UISP unreachable''"
  "log_fault failing_insert_env = None" "lookup_fault failing_insert_env = None"
  "insert_fault failing_insert_env = Some ''disk full''"
  "clock_synth failing_post_env = clock_synth quiet_env"
  "clock_synth failing_insert_env = clock_synth quiet_env"
  "log_fault failing_log_env = Some ''disk full''"
  by (simp_all add: quiet_env_def failing_post_env_def failing_insert_env_def failing_log_env_def)


section \<open>Idempotency\<close>

text \<open>
  Claim C1, as the code has it. When the transaction id of a validated webhook (given or
  synthesized) has a stored payment row, the run inserts no row, leaves the stored rows as
  they are, and invokes neither the external post nor any status write, whatever the
  storage does; when the log write and the lookup succeed, the handler answers 200 with
  the status of the stored row (when one of them fails, the outer \<^verbatim>\<open>catch\<close> answers
  500). Hence over any sequence of deliveries handled one after the other, each in any
  environment, the external post is invoked at most once for every transaction id.
\<close>

theorem duplicate_is_not_reprocessed:
  "(validate_payload (clock_synth e) (body req) = Inr (Inr pd)
      \<and> find (\<lambda>p. transaction_id p = member pd ''transaction_id'') (payments w) = Some p
     \<longrightarrow> payments (snd (webhook_payment e req w)) = payments w
       \<and> new_events w (snd (webhook_payment e req w)) = []
       \<and> (log_fault e = None \<and> lookup_fault e = None \<longrightarrow>
            webhook_payment e req w
              = (duplicate_response (member pd ''transaction_id'') p, logged req w))
       \<and> fst (duplicate_response (member pd ''transaction_id'') p) = 200
       \<and> member (snd (duplicate_response (member pd ''transaction_id'') p)) ''status''
           = JStr (status p))
   \<and> (events w0 = [] \<longrightarrow> post_count tid (deliver_all w0 ds) \<le> 1)"
  using duplicate_run[of e req pd w p] at_most_one_post[of w0 tid ds]
  by (simp add: new_events_def duplicate_response_def)

text \<open>
  The webhook \<^verbatim>\<open>T1\<close> redelivered while \<^verbatim>\<open>T1\<close> is stored as failed; and the webhook
  \<^verbatim>\<open>T2\<close> delivered three times.
\<close>

theorem duplicate_is_not_reprocessed_witness:
  "payments (snd (webhook_payment quiet_env webhook_T1 one_payment_world))
      = payments one_payment_world
   \<and> new_events one_payment_world (snd (webhook_payment quiet_env webhook_T1 one_payment_world)) = []
   \<and> webhook_payment quiet_env webhook_T1 one_payment_world
      = (duplicate_response (JStr ''T1'') stored_payment, logged webhook_T1 one_payment_world)
   \<and> member (snd (duplicate_response (JStr ''T1'') stored_payment)) ''status'' = JStr ''failed''
   \<and> post_count (JStr ''T2'')
        (deliver_all empty_world
           [(quiet_env, request_of payment_T2), (quiet_env, request_of payment_T2),
            (failing_post_env, request_of payment_T2)]) \<le> 1"
proof -
  let ?pd = "JObj [(''client_id'', JNum ''1''), (''amount'', JNum ''100''), (''transaction_id'', JStr ''T1'')]"
  have f: "find (\<lambda>p. transaction_id p = member ?pd ''transaction_id'') (payments one_payment_world)
      = Some stored_payment"
    by (simp add: one_payment_world_def stored_payment_def)
  have s: "status stored_payment = ''failed''" by (simp add: stored_payment_def)
  have e: "events empty_world = []" by (simp add: empty_world_def)
  show ?thesis
    using duplicate_is_not_reprocessed[of quiet_env webhook_T1 ?pd one_payment_world stored_payment
        empty_world "JStr ''T2''"
        "[(quiet_env, request_of payment_T2), (quiet_env, request_of payment_T2),
          (failing_post_env, request_of payment_T2)]"]
      validate_T1[of "clock_synth quiet_env"] f s e example_faults(1,2)
    by simp
qed


text \<open>
  \<^verbatim>\<open>T1\<close> is stored and its webhook is redelivered while the storage refuses the webhook
  log: the answer is 500, not 200.
\<close>

theorem stored_id_answered_500_counterexample:
  "find (\<lambda>p. transaction_id p = JStr ''T1'') (payments one_payment_world) = Some stored_payment
   \<and> validate_payload (clock_synth failing_log_env) (body webhook_T1)
       = Inr (Inr (JObj [(''client_id'', JNum ''1''), (''amount'', JNum ''100''),
                         (''transaction_id'', JStr ''T1'')]))
   \<and> webhook_payment failing_log_env webhook_T1 one_payment_world
       = (internal_error_response (Failure ''disk full''), one_payment_world)
   \<and> fst (internal_error_response (Failure ''disk full'')) = 500"
  using webhook_payment_log_failure[of failing_log_env "''disk full''" webhook_T1 one_payment_world]
  by (simp add: validate_T1 example_faults one_payment_world_def stored_payment_def
      internal_error_response_def)


section \<open>The pending insert comes before the external post\<close>

text \<open>
  Claim C3. For every webhook that passes validation and whose transaction id is not
  stored (the log write and the lookup having succeeded): when the insert succeeds, the
  external post runs in a world whose last payment row is the pending row of this
  payment, and the trace of the run starts with the insert followed by the post; when the
  insert fails, the handler answers 500 (internal server error), no row is written and
  the post is not invoked. And in every run whatever, a post is invoked at most once and
  only right after the insert of the row of its transaction id, which is stored at the
  end of the run.
\<close>

theorem pending_insert_precedes_post:
  "(validate_payload (clock_synth e) (body req) = Inr (Inr pd)
      \<and> log_fault e = None \<and> lookup_fault e = None
      \<and> member pd ''transaction_id'' \<notin> set (stored_ids w) \<longrightarrow>
      (insert_fault e = None \<longrightarrow>
         payment_try e req w = post_and_finalize e pd (with_pending e pd (logged req w))
         \<and> payments (with_pending e pd (logged req w))
             = payments w @ [pending_row (paymentRecord e pd)]
         \<and> status (pending_row (paymentRecord e pd)) = ''pending''
         \<and> transaction_id (pending_row (paymentRecord e pd)) = member pd ''transaction_id''
         \<and> (\<exists>rest. new_events w (snd (webhook_payment e req w))
                = Inserted (member pd ''transaction_id'') # PostInvoked pd # rest
              \<and> \<not> list_ex is_post rest))
    \<and> (insert_fault e = Some m \<longrightarrow>
         webhook_payment e req w = (internal_error_response (Failure m), logged req w)
         \<and> fst (internal_error_response (Failure m)) = 500
         \<and> payments (snd (webhook_payment e req w)) = payments w
         \<and> new_events w (snd (webhook_payment e req w)) = []))
   \<and> (\<not> list_ex is_post (new_events w (snd (webhook_payment e req w)))
       \<or> (\<exists>pd' rest. new_events w (snd (webhook_payment e req w))
             = Inserted (member pd' ''transaction_id'') # PostInvoked pd' # rest
            \<and> \<not> list_ex is_post rest
            \<and> member pd' ''transaction_id'' \<in> set (stored_ids (snd (webhook_payment e req w)))))"
proof (intro conjI impI)
  assume a: "validate_payload (clock_synth e) (body req) = Inr (Inr pd)
      \<and> log_fault e = None \<and> lookup_fault e = None
      \<and> member pd ''transaction_id'' \<notin> set (stored_ids w)"
  then have r: "validate_payload (clock_synth e) (body req) = Inr (Inr pd)"
    "log_fault e = None" "lookup_fault e = None"
    "member pd ''transaction_id'' \<notin> set (stored_ids w)" by simp_all
  {
    assume i: "insert_fault e = None"
    from reach_insert(1)[OF r i]
    show p: "payment_try e req w = post_and_finalize e pd (with_pending e pd (logged req w))" .
    show "payments (with_pending e pd (logged req w))
             = payments w @ [pending_row (paymentRecord e pd)]" by simp
    show "status (pending_row (paymentRecord e pd)) = ''pending''" by (simp add: pending_row_def)
    show "transaction_id (pending_row (paymentRecord e pd)) = member pd ''transaction_id''"
      by (simp add: pending_row_def)
    from post_and_finalize_effects[of e pd "with_pending e pd (logged req w)"]
    show "\<exists>rest. new_events w (snd (webhook_payment e req w))
                = Inserted (member pd ''transaction_id'') # PostInvoked pd # rest
              \<and> \<not> list_ex is_post rest"
      unfolding snd_webhook_payment p by auto
  }
  {
    assume i: "insert_fault e = Some m"
    from reach_insert(2)[OF r i]
    show w: "webhook_payment e req w = (internal_error_response (Failure m), logged req w)"
      by (simp add: webhook_payment_def)
    show "fst (internal_error_response (Failure m)) = 500"
      by (simp add: internal_error_response_def)
    show "payments (snd (webhook_payment e req w)) = payments w" by (simp add: w)
    show "new_events w (snd (webhook_payment e req w)) = []" by (simp add: w)
  }
next
  from webhook_payment_effects[of e req w]
  show "\<not> list_ex is_post (new_events w (snd (webhook_payment e req w)))
       \<or> (\<exists>pd' rest. new_events w (snd (webhook_payment e req w))
             = Inserted (member pd' ''transaction_id'') # PostInvoked pd' # rest
            \<and> \<not> list_ex is_post rest
            \<and> member pd' ''transaction_id'' \<in> set (stored_ids (snd (webhook_payment e req w))))"
  proof (elim disjE exE conjE)
    assume "events (snd (webhook_payment e req w)) = events w"
    then show ?thesis by simp
  next
    fix pd' rest
    assume "events (snd (webhook_payment e req w))
        = events w @ Inserted (member pd' ''transaction_id'') # PostInvoked pd' # rest"
      "\<not> list_ex is_post rest"
      "stored_ids (snd (webhook_payment e req w)) = stored_ids w @ [member pd' ''transaction_id'']"
    then show ?thesis by auto
  qed
qed

text \<open>
  The new payment \<^verbatim>\<open>T2\<close> with the storage working, and with the insert failing
  (\<^verbatim>\<open>disk full\<close>).
\<close>

theorem pending_insert_precedes_post_witness:
  "payment_try quiet_env (request_of payment_T2) empty_world
     = post_and_finalize quiet_env payment_T2
         (with_pending quiet_env payment_T2 (logged (request_of payment_T2) empty_world))
   \<and> (\<exists>rest. new_events empty_world
          (snd (webhook_payment quiet_env (request_of payment_T2) empty_world))
            = Inserted (JStr ''T2'') # PostInvoked payment_T2 # rest
        \<and> \<not> list_ex is_post rest)
   \<and> webhook_payment failing_insert_env (request_of payment_T2) empty_world
     = (internal_error_response (Failure ''disk full''), logged (request_of payment_T2) empty_world)
   \<and> new_events empty_world
        (snd (webhook_payment failing_insert_env (request_of payment_T2) empty_world)) = []"
proof -
  have s: "member payment_T2 ''transaction_id'' \<notin> set (stored_ids empty_world)"
    by (simp add: stored_ids_def empty_world_def)
  show ?thesis
    using pending_insert_precedes_post[of quiet_env "request_of payment_T2" payment_T2 empty_world
        "''disk full''"]
      pending_insert_precedes_post[of failing_insert_env "request_of payment_T2" payment_T2
        empty_world "''disk full''"]
      validate_T2[of "clock_synth quiet_env"] s example_faults member_T2
    by simp
qed


section \<open>The status once the response is sent\<close>

text \<open>
  Claim C2, as the code has it. For a validated webhook whose transaction id is not
  stored, the log write, the lookup and the insert having succeeded: when the external
  post succeeds, the status write succeeds and the client id can be printed, the answer
  is 200 and the stored row has status \<^verbatim>\<open>success\<close> with the stringified external
  response; when the external post fails and the status write of the \<^verbatim>\<open>catch\<close>
  succeeds, the stored row has status \<^verbatim>\<open>failed\<close> with the message of the thrown
  error, written before the 500 answer. In both cases the row is not left pending.
\<close>

theorem final_status_after_response:
  "validate_payload (clock_synth e) (body req) = Inr (Inr pd)
     \<and> log_fault e = None \<and> lookup_fault e = None \<and> insert_fault e = None
     \<and> member pd ''transaction_id'' \<notin> set (stored_ids w) \<longrightarrow>
     (postPaymentToUISP e pd = Inr resp \<and> update_fault e = None
        \<and> js_to_string (member pd ''client_id'') = Inr s \<longrightarrow>
        fst (webhook_payment e req w) = success_response e (member pd ''transaction_id'') resp
        \<and> fst (success_response e (member pd ''transaction_id'') resp) = 200
        \<and> payments (snd (webhook_payment e req w)) = payments w @
            [(pending_row (paymentRecord e pd))
               \<lparr>status := ''success'', response_payload := JSON_stringify e resp,
                error_message := JNull\<rparr>])
   \<and> (postPaymentToUISP e pd = Inl m \<and> update_fault_catch e = None \<longrightarrow>
        fst (webhook_payment e req w)
          = uisp_failure_response (member pd ''transaction_id'') (Failure m)
        \<and> fst (uisp_failure_response (member pd ''transaction_id'') (Failure m)) = 500
        \<and> payments (snd (webhook_payment e req w)) = payments w @
            [(pending_row (paymentRecord e pd))
               \<lparr>status := ''failed'', response_payload := JNull, error_message := JStr m\<rparr>]
        \<and> new_events w (snd (webhook_payment e req w))
            = [Inserted (member pd ''transaction_id''), PostInvoked pd,
               StatusUpdated (member pd ''transaction_id'') ''failed''])"
proof (intro impI)
  assume a: "validate_payload (clock_synth e) (body req) = Inr (Inr pd)
     \<and> log_fault e = None \<and> lookup_fault e = None \<and> insert_fault e = None
     \<and> member pd ''transaction_id'' \<notin> set (stored_ids w)"
  then have p: "payment_try e req w = post_and_finalize e pd (with_pending e pd (logged req w))"
    by (intro reach_insert(1)) simp_all
  from a have s: "member pd ''transaction_id'' \<notin> set (stored_ids (logged req w))" by simp
  have ok: "fst (webhook_payment e req w) = success_response e (member pd ''transaction_id'') resp
        \<and> fst (success_response e (member pd ''transaction_id'') resp) = 200
        \<and> payments (snd (webhook_payment e req w)) = payments w @
            [(pending_row (paymentRecord e pd))
               \<lparr>status := ''success'', response_payload := JSON_stringify e resp,
                error_message := JNull\<rparr>]"
    if "postPaymentToUISP e pd = Inr resp \<and> update_fault e = None
        \<and> js_to_string (member pd ''client_id'') = Inr s"
    using post_success_run[OF s, of e resp s] that
    by (auto simp: webhook_payment_def p success_response_def)
  have ko: "fst (webhook_payment e req w)
          = uisp_failure_response (member pd ''transaction_id'') (Failure m)
        \<and> fst (uisp_failure_response (member pd ''transaction_id'') (Failure m)) = 500
        \<and> payments (snd (webhook_payment e req w)) = payments w @
            [(pending_row (paymentRecord e pd))
               \<lparr>status := ''failed'', response_payload := JNull, error_message := JStr m\<rparr>]
        \<and> new_events w (snd (webhook_payment e req w))
            = [Inserted (member pd ''transaction_id''), PostInvoked pd,
               StatusUpdated (member pd ''transaction_id'') ''failed'']"
    if "postPaymentToUISP e pd = Inl m \<and> update_fault_catch e = None"
    using post_failure_run[OF s, of e m] that
    by (auto simp: webhook_payment_def p uisp_failure_response_def)
  from ok ko show "(postPaymentToUISP e pd = Inr resp \<and> update_fault e = None
        \<and> js_to_string (member pd ''client_id'') = Inr s \<longrightarrow>
        fst (webhook_payment e req w) = success_response e (member pd ''transaction_id'') resp
        \<and> fst (success_response e (member pd ''transaction_id'') resp) = 200
        \<and> payments (snd (webhook_payment e req w)) = payments w @
            [(pending_row (paymentRecord e pd))
               \<lparr>status := ''success'', response_payload := JSON_stringify e resp,
                error_message := JNull\<rparr>])
   \<and> (postPaymentToUISP e pd = Inl m \<and> update_fault_catch e = None \<longrightarrow>
        fst (webhook_payment e req w)
          = uisp_failure_response (member pd ''transaction_id'') (Failure m)
        \<and> fst (uisp_failure_response (member pd ''transaction_id'') (Failure m)) = 500
        \<and> payments (snd (webhook_payment e req w)) = payments w @
            [(pending_row (paymentRecord e pd))
               \<lparr>status := ''failed'', response_payload := JNull, error_message := JStr m\<rparr>]
        \<and> new_events w (snd (webhook_payment e req w))
            = [Inserted (member pd ''transaction_id''), PostInvoked pd,
               StatusUpdated (member pd ''transaction_id'') ''failed''])"
    by blast
qed

text \<open>
  The new payment \<^verbatim>\<open>T2\<close>, posted with success: the row holds the text of the external
  answer. And the same payment with the external post failing (\<^verbatim>\<open>UISP unreachable\<close>).
\<close>

theorem final_status_after_response_witness:
  "fst (fst (webhook_payment quiet_env (request_of payment_T2) empty_world)) = 200
   \<and> map status (payments (snd (webhook_payment quiet_env (request_of payment_T2) empty_world)))
       = [''success'']
   \<and> map response_payload
        (payments (snd (webhook_payment quiet_env (request_of payment_T2) empty_world)))
       = [JStr reply_text]
   \<and> fst (fst (webhook_payment failing_post_env (request_of payment_T2) empty_world)) = 500
   \<and> map status
        (payments (snd (webhook_payment failing_post_env (request_of payment_T2) empty_world)))
       = [''failed'']
   \<and> map error_message
        (payments (snd (webhook_payment failing_post_env (request_of payment_T2) empty_world)))
       = [JStr ''UISP unreachable'']"
proof -
  have s: "member payment_T2 ''transaction_id'' \<notin> set (stored_ids empty_world)"
    by (simp add: stored_ids_def empty_world_def)
  have p: "payments empty_world = []" by (simp add: empty_world_def)
  have j: "JSON_stringify quiet_env uisp_reply = JStr reply_text"
    by (simp add: JSON_stringify_def quiet_env_def uisp_reply_def)
  show ?thesis
    using final_status_after_response[of quiet_env "request_of payment_T2" payment_T2 empty_world
        uisp_reply "''1''" "''UISP unreachable''"]
      final_status_after_response[of failing_post_env "request_of payment_T2" payment_T2 empty_world
        uisp_reply "''1''" "''UISP unreachable''"]
      validate_T2[of "clock_synth quiet_env"] s p j example_faults member_T2(2)
    by simp
qed

text \<open>
  The external post succeeds and the storage refuses both status writes: the handler
  answers 500 and the row is left pending.
\<close>

theorem pending_left_counterexample:
  "postPaymentToUISP failing_update_env payment_T2 = Inr uisp_reply
   \<and> fst (fst (webhook_payment failing_update_env (request_of payment_T2) empty_world)) = 500
   \<and> map status
        (payments (snd (webhook_payment failing_update_env (request_of payment_T2) empty_world)))
       = [''pending'']"
  by (simp add: handler_defs gateway_defs example_defs internal_error_response_def)

text \<open>
  The throw after the success write. The payment \<^verbatim>\<open>T3\<close> has a client id that cannot be
  printed: the external post succeeds, the row is written as \<^verbatim>\<open>success\<close>, then
  \<^verbatim>\<open>parseInt\<close> throws inside the inner \<^verbatim>\<open>try\<close>, and the \<^verbatim>\<open>catch\<close> writes the row as
  \<^verbatim>\<open>failed\<close> and answers 500.
\<close>

lemma sync_throw_example:
  "postPaymentToUISP quiet_env payment_T3 = Inr uisp_reply
   \<and> fst (webhook_payment quiet_env (request_of payment_T3) empty_world)
       = uisp_failure_response (JStr ''T3'') NotPrimitive
   \<and> map status (payments (snd (webhook_payment quiet_env (request_of payment_T3) empty_world)))
       = [''failed'']
   \<and> new_events empty_world (snd (webhook_payment quiet_env (request_of payment_T3) empty_world))
       = [Inserted (JStr ''T3''), PostInvoked payment_T3,
          StatusUpdated (JStr ''T3'') ''success'', StatusUpdated (JStr ''T3'') ''failed'']"
  by (simp add: handler_defs gateway_defs parse_defs example_defs new_events_def)


section \<open>Transaction id synthesis\<close>

lemma same_kind_prints:
  "same_kind c1 c2 \<Longrightarrow> js_to_string c1 = Inr (print_text c1) \<and> js_to_string c2 = Inr (print_text c2)
     \<and> (print_text c1 = print_text c2 \<longrightarrow> c1 = c2)"
  by (cases c1; cases c2) (simp_all add: js_to_string_def)

lemma synthesis_throw_run:
  assumes "log_fault e = None" and "extract_payment_data (body req) = Inr pd0"
    and "\<not> is_ping pd0" and "missingFields (alias_client_id pd0) = []"
    and "\<not> truthy (member (alias_client_id pd0) ''transaction_id'')"
    and "js_to_string (member (alias_client_id pd0) ''client_id'') = Inl err"
  shows "webhook_payment e req w = (internal_error_response err, logged req w)"
proof -
  from assms(5,6) have "ensure_transaction_id (clock_synth e) (alias_client_id pd0) = Inl err"
    by (simp add: ensure_transaction_id_def)
  with validate_payload_complete[OF assms(2-4), of "clock_synth e"]
  have "validate_payload (clock_synth e) (body req) = Inl err" by simp
  with assms(1) show ?thesis
    by (simp add: webhook_payment_def payment_try_def logWebhook_def logged_def)
qed

text \<open>
  Claim C7, as the code has it. A payload that passed validation (its \<^verbatim>\<open>client_id\<close> is
  truthy) and has no truthy \<^verbatim>\<open>transaction_id\<close> gets the id
  \<^verbatim>\<open>SPLYNX-<time>-<client id>\<close>, the client id printed as a template literal prints it;
  when the client id cannot be printed, the template literal throws, no id is synthesized
  and the outer \<^verbatim>\<open>catch\<close> answers 500. Two synthesized ids are equal exactly when the
  times are equal and the two client ids print the same text. So two deliveries whose
  client ids are both strings, or both numbers, and whose (client id, time) pairs differ,
  get different ids.
\<close>

theorem synthesized_id_collisions:
  "(truthy (member pd ''client_id'') \<and> \<not> truthy (member pd ''transaction_id'') \<longrightarrow>
      (js_to_string (member pd ''client_id'') = Inr s \<longrightarrow>
         ensure_transaction_id now pd
           = Inr (set_member pd ''transaction_id'' (JStr (synthesized_id now s)))
         \<and> member (set_member pd ''transaction_id'' (JStr (synthesized_id now s)))
             ''transaction_id'' = JStr (synthesized_id now s))
      \<and> (js_to_string (member pd ''client_id'') = Inl err \<longrightarrow>
           ensure_transaction_id now pd = Inl err))
   \<and> (log_fault e = None \<and> extract_payment_data (body req) = Inr pd0 \<and> \<not> is_ping pd0
        \<and> missingFields (alias_client_id pd0) = []
        \<and> \<not> truthy (member (alias_client_id pd0) ''transaction_id'')
        \<and> js_to_string (member (alias_client_id pd0) ''client_id'') = Inl err \<longrightarrow>
        webhook_payment e req w = (internal_error_response err, logged req w)
        \<and> fst (internal_error_response err) = 500)
   \<and> ((synthesized_id t1 s1 = synthesized_id t2 s2) = (t1 = t2 \<and> s1 = s2))
   \<and> (same_kind c1 c2 \<and> (c1, t1) \<noteq> (c2, t2) \<longrightarrow>
        js_to_string c1 = Inr (print_text c1) \<and> js_to_string c2 = Inr (print_text c2)
        \<and> synthesized_id t1 (print_text c1) \<noteq> synthesized_id t2 (print_text c2))"
proof (intro conjI impI)
  assume a: "truthy (member pd ''client_id'') \<and> \<not> truthy (member pd ''transaction_id'')"
  then obtain kvs where pd: "pd = JObj kvs" using truthy_member_object by blast
  {
    assume "js_to_string (member pd ''client_id'') = Inr s"
    with a show "ensure_transaction_id now pd
           = Inr (set_member pd ''transaction_id'' (JStr (synthesized_id now s)))"
      by (simp add: ensure_transaction_id_def)
    show "member (set_member pd ''transaction_id'' (JStr (synthesized_id now s)))
             ''transaction_id'' = JStr (synthesized_id now s)"
      unfolding pd by (rule member_set_member_same)
  }
  {
    assume "js_to_string (member pd ''client_id'') = Inl err"
    with a show "ensure_transaction_id now pd = Inl err"
      by (simp add: ensure_transaction_id_def)
  }
next
  assume "log_fault e = None \<and> extract_payment_data (body req) = Inr pd0 \<and> \<not> is_ping pd0
        \<and> missingFields (alias_client_id pd0) = []
        \<and> \<not> truthy (member (alias_client_id pd0) ''transaction_id'')
        \<and> js_to_string (member (alias_client_id pd0) ''client_id'') = Inl err"
  then show "webhook_payment e req w = (internal_error_response err, logged req w)"
    using synthesis_throw_run[of e req pd0 err w] by simp
next
  show "fst (internal_error_response err) = 500" by (simp add: internal_error_response_def)
next
  show "(synthesized_id t1 s1 = synthesized_id t2 s2) = (t1 = t2 \<and> s1 = s2)"
    by (rule synthesized_id_eq_iff)
next
  assume a: "same_kind c1 c2 \<and> (c1, t1) \<noteq> (c2, t2)"
  with same_kind_prints[of c1 c2]
  show "js_to_string c1 = Inr (print_text c1)" and "js_to_string c2 = Inr (print_text c2)"
    by simp_all
  from a same_kind_prints[of c1 c2]
  show "synthesized_id t1 (print_text c1) \<noteq> synthesized_id t2 (print_text c2)"
    by (auto simp: synthesized_id_eq_iff)
qed

text \<open>
  The payload \<^verbatim>\<open>{client_id: 7, amount: 100}\<close> at time 1700000000001; the payload whose
  client id is \<^verbatim>\<open>{"toString": 1}\<close>, answered 500; the string client id \<^verbatim>\<open>"7"\<close> at two
  times; the numbers 7 and 8 at one time.
\<close>

theorem synthesized_id_collisions_witness:
  "ensure_transaction_id (millis 1700000000001)
      (JObj [(''client_id'', JNum ''7''), (''amount'', JNum ''100'')])
     = Inr (JObj [(''client_id'', JNum ''7''), (''amount'', JNum ''100''),
                  (''transaction_id'', JStr ''SPLYNX-1700000000001-7'')])
   \<and> webhook_payment quiet_env
        (request_of (JObj [(''client_id'', JObj [(''toString'', JNum ''1'')]),
                           (''amount'', JNum ''100'')])) empty_world
     = (internal_error_response NotPrimitive,
        logged (request_of (JObj [(''client_id'', JObj [(''toString'', JNum ''1'')]),
                                  (''amount'', JNum ''100'')])) empty_world)
   \<and> synthesized_id (millis 1700000000001) ''7'' \<noteq> synthesized_id (millis 1700000000002) ''7''
   \<and> synthesized_id (millis 1700000000001) (print_text (JNum ''7''))
       \<noteq> synthesized_id (millis 1700000000001) (print_text (JNum ''8''))"
proof -
  let ?a = "JObj [(''client_id'', JNum ''7''), (''amount'', JNum ''100'')]"
  let ?b = "JObj [(''client_id'', JObj [(''toString'', JNum ''1'')]), (''amount'', JNum ''100'')]"
  have a: "truthy (member ?a ''client_id'') \<and> \<not> truthy (member ?a ''transaction_id'')
      \<and> js_to_string (member ?a ''client_id'') = Inr ''7''"
    by (simp add: js_to_string_def)
  have b: "extract_payment_data (body (request_of ?b)) = Inr ?b \<and> \<not> is_ping ?b
      \<and> alias_client_id ?b = ?b \<and> missingFields ?b = []
      \<and> \<not> truthy (member ?b ''transaction_id'')
      \<and> js_to_string (member ?b ''client_id'') = Inl NotPrimitive"
    by (simp add: request_of_def validation_defs js_to_string_def)
  have t: "millis 1700000000001 \<noteq> millis 1700000000002"
    by (simp add: Rep_time_value_inject[symmetric] millis.rep_eq)
  have k: "same_kind (JNum ''7'') (JNum ''8'')" by simp
  show ?thesis
    using synthesized_id_collisions[of ?a "''7''" "millis 1700000000001" NotPrimitive
        quiet_env "request_of ?b" ?b empty_world
        "millis 1700000000001" "''7''" "millis 1700000000002" "''7''"
        "JNum ''7''" "JNum ''8''"]
      a b t k example_faults(1)
    by (simp add: synthesized_id_def print_number time_simps)
qed

text \<open>
  The synthesis is not collision-free over the client ids a payload can carry: at one
  time, two payments whose client ids are two different objects get one id.
\<close>

theorem synthesized_id_collision_counterexample:
  "(JObj [(''id'', JNum ''1'')], millis 1700000000001)
     \<noteq> (JObj [(''id'', JNum ''2'')], millis 1700000000001)
   \<and> ensure_transaction_id (millis 1700000000001)
        (JObj [(''client_id'', JObj [(''id'', JNum ''1'')]), (''amount'', JNum ''100'')])
     = Inr (JObj [(''client_id'', JObj [(''id'', JNum ''1'')]), (''amount'', JNum ''100''),
                  (''transaction_id'', JStr ''SPLYNX-1700000000001-[object Object]'')])
   \<and> ensure_transaction_id (millis 1700000000001)
        (JObj [(''client_id'', JObj [(''id'', JNum ''2'')]), (''amount'', JNum ''100'')])
     = Inr (JObj [(''client_id'', JObj [(''id'', JNum ''2'')]), (''amount'', JNum ''100''),
                  (''transaction_id'', JStr ''SPLYNX-1700000000001-[object Object]'')])"
  by (simp add: ensure_transaction_id_def js_to_string_def synthesized_id_def print_number
      time_simps)


section \<open>The payment list\<close>

lemma payments_page_rows:
  "response_rows (payments_page limit offset rows) = map payment_json rows"
  "pagination_count (payments_page limit offset rows)
     = number (int (length (response_rows (payments_page limit offset rows))))"
  "pagination_limit (payments_page limit offset rows) = number limit"
  "fst (payments_page limit offset rows) = 200"
  by (simp_all add: payments_page_def response_rows_def pagination_count_def
      pagination_limit_def pagination_def)

lemma get_payments_parsed:
  assumes "parseInt (member query ''limit'') = Inr l"
    and "parseInt (member query ''offset'') = Inr off"
    and "or_default l 50 = Num limit" and "or_default off 0 = Num offset"
  shows "get_payments None query w
           = Some (payments_page limit offset (take (nat limit) (drop (nat offset) (payments w))))"
    and "get_payments (Some m) query w
           = Some (api_failure ''Failed to fetch payments'' (Failure m))"
  using assms by (simp_all add: get_payments_def getAllPayments_def)

lemma get_payments_throw:
  "parseInt (member query ''limit'') = Inl err
     \<Longrightarrow> get_payments fault query w = Some (api_failure ''Failed to fetch payments'' err)"
  "parseInt (member query ''limit'') = Inr l \<Longrightarrow> parseInt (member query ''offset'') = Inl err
     \<Longrightarrow> get_payments fault query w = Some (api_failure ''Failed to fetch payments'' err)"
  by (simp_all add: get_payments_def)

lemma or_default_cases:
  "or_default l d = Num n \<Longrightarrow> (l = NaN \<or> l = Num 0) \<Longrightarrow> n = d"
  "or_default l d = Num n \<Longrightarrow> l = Num k \<Longrightarrow> k \<noteq> 0 \<Longrightarrow> n = k"
  by (cases l; auto)+

text \<open>
  Claim C9, as the code has it. Let the limit and the offset parse, with \<^verbatim>\<open>parseInt\<close>, to
  \<^verbatim>\<open>NaN\<close> or to integers of magnitude at most \<open>2^53\<close>. The effective limit is the
  parsed limit, or 50 when that is \<^verbatim>\<open>NaN\<close> or 0; the effective offset is the parsed
  offset, or 0. When the gateway answers, the response is 200 and carries the rows the
  gateway lists for the effective limit and offset, \<^verbatim>\<open>pagination.count\<close> is the number of
  rows in \<^verbatim>\<open>data\<close>, and \<^verbatim>\<open>pagination.limit\<close> is the effective limit. So a request whose
  limit parses to a positive \<open>n\<close> gets at most \<open>n\<close> rows starting at the offset, and a
  request whose limit is absent, not a number or 0 gets at most 50. When the gateway
  fails, or a parameter cannot be printed, the response is 500 and carries no rows.
\<close>

theorem payments_page_bounds:
  "(parseInt (member query ''limit'') = Inr l \<and> parseInt (member query ''offset'') = Inr off
      \<and> or_default l 50 = Num limit \<and> or_default off 0 = Num offset \<longrightarrow>
      get_payments None query w
        = Some (payments_page limit offset (take (nat limit) (drop (nat offset) (payments w))))
      \<and> get_payments (Some m) query w
        = Some (api_failure ''Failed to fetch payments'' (Failure m))
      \<and> (l = Num n \<and> 0 < n \<longrightarrow>
            limit = n
            \<and> int (length (take (nat limit) (drop (nat offset) (payments w)))) \<le> n)
      \<and> (l = NaN \<or> l = Num 0 \<longrightarrow>
            limit = 50
            \<and> length (take (nat limit) (drop (nat offset) (payments w))) \<le> 50))
   \<and> (parseInt (member query ''limit'') = Inl err \<longrightarrow>
        get_payments fault query w = Some (api_failure ''Failed to fetch payments'' err))
   \<and> response_rows (payments_page limit offset rows) = map payment_json rows
   \<and> pagination_count (payments_page limit offset rows)
       = number (int (length (response_rows (payments_page limit offset rows))))
   \<and> pagination_limit (payments_page limit offset rows) = number limit
   \<and> fst (payments_page limit offset rows) = 200
   \<and> response_rows (api_failure ''Failed to fetch payments'' err) = []
   \<and> fst (api_failure ''Failed to fetch payments'' err) = 500"
proof (intro conjI impI)
  assume a: "parseInt (member query ''limit'') = Inr l \<and> parseInt (member query ''offset'') = Inr off
      \<and> or_default l 50 = Num limit \<and> or_default off 0 = Num offset"
  then show "get_payments None query w
        = Some (payments_page limit offset (take (nat limit) (drop (nat offset) (payments w))))"
    using get_payments_parsed(1)[of query l off limit offset w] by simp
  from a show "get_payments (Some m) query w
        = Some (api_failure ''Failed to fetch payments'' (Failure m))"
    using get_payments_parsed(2)[of query l off limit offset m w] by simp
  {
    assume p: "l = Num n \<and> 0 < n"
    with a or_default_cases(2)[of l 50 limit n] show n: "limit = n" by simp
    have "length (take (nat limit) (drop (nat offset) (payments w))) \<le> nat limit" by simp
    with p n show "int (length (take (nat limit) (drop (nat offset) (payments w)))) \<le> n"
      by linarith
  }
  {
    assume p: "l = NaN \<or> l = Num 0"
    with a or_default_cases(1)[of l 50 limit] show n: "limit = 50" by simp
    show "length (take (nat limit) (drop (nat offset) (payments w))) \<le> 50"
      unfolding n by simp
  }
next
  assume "parseInt (member query ''limit'') = Inl err"
  then show "get_payments fault query w = Some (api_failure ''Failed to fetch payments'' err)"
    by (rule get_payments_throw(1))
next
  show "response_rows (payments_page limit offset rows) = map payment_json rows"
    and "pagination_count (payments_page limit offset rows)
       = number (int (length (response_rows (payments_page limit offset rows))))"
    and "pagination_limit (payments_page limit offset rows) = number limit"
    and "fst (payments_page limit offset rows) = 200"
    by (rule payments_page_rows)+
  show "response_rows (api_failure ''Failed to fetch payments'' err) = []"
    and "fst (api_failure ''Failed to fetch payments'' err) = 500"
    by (simp_all add: api_failure_def response_rows_def)
qed

text \<open>
  One stored payment. \<^verbatim>\<open>limit=1&offset=0\<close> returns it with count 1;
  \<^verbatim>\<open>limit=1&offset=1\<close> returns nothing; a limit of 7 after a no-break space is the
  limit 7; no parameters give the limit 50.
\<close>

theorem payments_page_bounds_witness:
  "get_payments None (JObj [(''limit'', JStr ''1''), (''offset'', JStr ''0'')]) one_payment_world
     = Some (payments_page 1 0 [stored_payment])
   \<and> pagination_count (payments_page 1 0 [stored_payment]) = JNum ''1''
   \<and> get_payments None (JObj [(''limit'', JStr ''1''), (''offset'', JStr ''1'')]) one_payment_world
     = Some (payments_page 1 1 [])
   \<and> get_payments None (JObj [(''limit'', JStr [CHR 0xC2, CHR 0xA0, CHR ''7''])]) one_payment_world
     = Some (payments_page 7 0 [stored_payment])
   \<and> get_payments None (JObj []) one_payment_world = Some (payments_page 50 0 [stored_payment])"
proof -
  let ?q = "JObj [(''limit'', JStr ''1''), (''offset'', JStr ''0'')]"
  let ?r = "JObj [(''limit'', JStr ''1''), (''offset'', JStr ''1'')]"
  let ?s = "JObj [(''limit'', JStr [CHR 0xC2, CHR 0xA0, CHR ''7''])]"
  have q: "parseInt (member ?q ''limit'') = Inr (Num 1) \<and> parseInt (member ?q ''offset'') = Inr (Num 0)"
    by (simp add: parse_defs)
  have r: "parseInt (member ?r ''limit'') = Inr (Num 1) \<and> parseInt (member ?r ''offset'') = Inr (Num 1)"
    by (simp add: parse_defs)
  have s: "parseInt (member ?s ''limit'') = Inr (Num 7) \<and> parseInt (member ?s ''offset'') = Inr NaN"
    by (simp add: parse_defs)
  have u: "parseInt (member (JObj []) ''limit'') = Inr NaN \<and> parseInt (member (JObj []) ''offset'') = Inr NaN"
    by (simp add: parse_defs)
  have p: "payments one_payment_world = [stored_payment]" by (simp add: one_payment_world_def)
  have c: "number 1 = JNum ''1''" by (simp add: number_def print_number)
  show ?thesis
    using payments_page_bounds[of ?q "Num 1" "Num 0" 1 0 one_payment_world "''x''" 1 NotPrimitive
        None "[stored_payment]"]
      payments_page_bounds[of ?r "Num 1" "Num 1" 1 1 one_payment_world "''x''" 1 NotPrimitive
        None "[stored_payment]"]
      payments_page_bounds[of ?s "Num 7" NaN 7 0 one_payment_world "''x''" 7 NotPrimitive
        None "[stored_payment]"]
      payments_page_bounds[of "JObj []" NaN NaN 50 0 one_payment_world "''x''" 7 NotPrimitive
        None "[stored_payment]"]
      q r s u p c
    by simp
qed

text \<open>
  \<^verbatim>\<open>limit=0\<close> parses to 0, is replaced by 50, and the response carries a row: more than
  the 0 rows asked for.
\<close>

theorem limit_zero_counterexample:
  "parseInt (member (JObj [(''limit'', JStr ''0''), (''offset'', JStr ''0'')]) ''limit'')
     = Inr (Num 0)
   \<and> get_payments None (JObj [(''limit'', JStr ''0''), (''offset'', JStr ''0'')]) one_payment_world
     = Some (payments_page 50 0 [stored_payment])
   \<and> response_rows (payments_page 50 0 [stored_payment]) = [payment_json stored_payment]"
  by (simp add: get_payments_def getAllPayments_def one_payment_world_def parse_defs
      payments_page_rows)


section \<open>Response envelope\<close>


















lemma success_ping: "success_on_probes_only ping_response"
  by (simp add: success_on_probes_only_def ping_response_def)

lemma success_probe: "success_on_probes_only probe_response"
  by (simp add: success_on_probes_only_def probe_response_def)

lemma success_missing: "success_on_probes_only (missing_response ms)"
  by (simp add: success_on_probes_only_def missing_response_def has_member_def
      ping_response_def probe_response_def)

lemma success_duplicate: "success_on_probes_only (duplicate_response tid p)"
  by (simp add: success_on_probes_only_def duplicate_response_def has_member_def
      ping_response_def probe_response_def)

lemma success_success: "success_on_probes_only (success_response e tid r)"
  by (simp add: success_on_probes_only_def success_response_def has_member_def
      ping_response_def probe_response_def)

lemma success_uisp_failure: "success_on_probes_only (uisp_failure_response tid err)"
  by (simp add: success_on_probes_only_def uisp_failure_response_def has_member_def
      ping_response_def probe_response_def)

lemma success_internal_error: "success_on_probes_only (internal_error_response err)"
  by (simp add: success_on_probes_only_def internal_error_response_def has_member_def
      ping_response_def probe_response_def)

lemmas success_forms = success_ping success_probe success_missing success_duplicate
  success_success success_uisp_failure success_internal_error

lemma validate_payload_success:
  "validate_payload now b = Inr (Inl r) \<Longrightarrow> success_on_probes_only r"
  by (auto simp: validate_payload_def Let_def success_forms split: sum.splits if_splits)

lemma try_post_success: "try_post e pd w = Inr (r, w') \<Longrightarrow> success_on_probes_only r"
  by (auto simp: try_post_def Let_def success_forms split: sum.splits)

lemma post_and_finalize_success:
  "post_and_finalize e pd w = Inr (r, w') \<Longrightarrow> success_on_probes_only r"
  by (auto simp: post_and_finalize_def success_forms split: sum.splits dest: try_post_success)

lemma process_payment_success:
  "process_payment e pd w = Inr (r, w') \<Longrightarrow> success_on_probes_only r"
  by (auto simp: process_payment_def success_forms split: sum.splits option.splits
      dest: post_and_finalize_success)

lemma payment_try_success:
  "payment_try e req w = Inr (r, w') \<Longrightarrow> success_on_probes_only r"
  by (auto simp: payment_try_def split: sum.splits
      dest: process_payment_success validate_payload_success)

text \<open>
  The handler writes \<^verbatim>\<open>success: true\<close> in the ping and the probe responses and no
  \<^verbatim>\<open>success\<close> member in any other response, the 400 and the 500 included.
\<close>

lemma webhook_payment_success_member:
  "success_on_probes_only (fst (webhook_payment e req w))"
proof (cases "payment_try e req w")
  case (Inl a)
  then show ?thesis by (cases a) (simp add: webhook_payment_def success_forms)
next
  case (Inr b)
  then show ?thesis by (cases b) (simp add: webhook_payment_def payment_try_success)
qed




end
